theory Spec2Isabelle
  imports Complex_Main "HOL-Library.AList" "HOL-Library.Sublist"
begin

section \<open>QARepeater: replaying QA sessions through the RadMachine API\<close>

text \<open>
  A shallow embedding of \<^verbatim>\<open>examples/06-qa-repeater/qarepeater.py\<close>.
  Values that come out of the API as JSON are a datatype; API objects are records of the
  fields the code reads; exceptions are values of a sum type; the module global, the
  monotonic clock and the requests sent live in an explicit world that every effectful
  function takes and returns.
\<close>

subsection \<open>Python values and exceptions\<close>

datatype json =
    JNull
  | JBool bool
  | JNum real
  | JStr string
  | JList "json list"
  | JObj "(string \<times> json) list"

datatype error =
    KeyError string
  | TypeError
  | AttributeError
  | JSONDecodeError
  | Base64Error
  | UnicodeDecodeError
  | RequestError
  | ValueError string

text \<open>Truth value of a Python object in a condition (\<^verbatim>\<open>if x:\<close>).\<close>

fun truthy :: "json \<Rightarrow> bool" where
  "truthy JNull = False"
| "truthy (JBool b) = b"
| "truthy (JNum x) = (x \<noteq> 0)"
| "truthy (JStr s) = (s \<noteq> [])"
| "truthy (JList xs) = (xs \<noteq> [])"
| "truthy (JObj kvs) = (kvs \<noteq> [])"

text \<open>\<^verbatim>\<open>d[k]\<close> on a decoded JSON value: only a dict with the key answers.\<close>

fun getitem :: "json \<Rightarrow> string \<Rightarrow> error + json" where
  "getitem (JObj kvs) k = (case map_of kvs k of None \<Rightarrow> Inl (KeyError k) | Some v \<Rightarrow> Inr v)"
| "getitem _ k = Inl TypeError"

subsection \<open>String methods\<close>

text \<open>\<^verbatim>\<open>s.strip(chars)\<close>: drop the characters of \<open>chars\<close> from both ends.\<close>

definition strip :: "string \<Rightarrow> string \<Rightarrow> string" where
  "strip chars s =
     rev (dropWhile (\<lambda>c. c \<in> set chars) (rev (dropWhile (\<lambda>c. c \<in> set chars) s)))"

text \<open>\<^verbatim>\<open>s.endswith(suffix)\<close>.\<close>

definition endswith :: "string \<Rightarrow> string \<Rightarrow> bool" where
  "endswith s suf = suffix suf s"

text \<open>
  \<^verbatim>\<open>s.rsplit(sep)\<close> with a one-character separator and no limit: the pieces between
  the separators, never an empty list.
\<close>

fun rsplit :: "char \<Rightarrow> string \<Rightarrow> string list" where
  "rsplit sep [] = [[]]"
| "rsplit sep (c # cs) =
     (if c = sep then [] # rsplit sep cs
      else (case rsplit sep cs of w # ws \<Rightarrow> (c # w) # ws | [] \<Rightarrow> [[c]]))"

text \<open>
  \<^verbatim>\<open>def object_id_from_url(url): return url.strip("/").rsplit("/")[-1]\<close>
  The list is never empty (\<open>rsplit_not_Nil\<close> below), so \<^verbatim>\<open>[-1]\<close> is its last element.
\<close>

definition object_id_from_url :: "string \<Rightarrow> string" where
  "object_id_from_url url = last (rsplit CHR ''/'' (strip ''/'' url))"

subsection \<open>API objects\<close>

text \<open>
  The dictionaries the API returns, with the keys the code indexes. Keys whose value may be
  null or of several kinds are of type \<open>json\<close>.
\<close>

record test =
  t_url :: string
  t_slug :: string
  t_name :: string
  t_type :: string
  t_statistic :: bool

record unit_test_info =
  uti_url :: string
  uti_test :: string

record test_instance =
  ti_unit_test_info :: string
  ti_skipped :: bool
  ti_value :: json
  ti_string_value :: json
  ti_date_value :: json
  ti_datetime_value :: json
  ti_json_value :: json
  ti_unit_lookup_value :: json

record qa_session =
  s_url :: json
  s_work_completed :: json
  s_test_instances :: "test_instance list"

record attachment =
  a_download :: string
  a_label :: json

definition CALCULATED_TEST_TYPES :: "string list" where
  "CALCULATED_TEST_TYPES = [''composite'', ''scomposite'', ''rlookup'']"

subsection \<open>Library functions the code calls\<close>

text \<open>
  \<^verbatim>\<open>json.loads\<close>, \<^verbatim>\<open>str\<close>, \<^verbatim>\<open>==\<close> on decoded values,
  \<^verbatim>\<open>base64.b64decode\<close>, \<^verbatim>\<open>bytes.decode\<close>, the \<^verbatim>\<open>urlparse\<close>/\<^verbatim>\<open>urlunparse\<close>
  round trip and \<^verbatim>\<open>datetime.now().isoformat()\<close> are not code of the repository: they are
  parameters. A failing call is \<open>None\<close>.
\<close>

record library =
  json_loads :: "string \<Rightarrow> json option"
  py_str :: "json \<Rightarrow> string"
  py_eq :: "json \<Rightarrow> json \<Rightarrow> bool"
  b64decode :: "string \<Rightarrow> string option"
  utf8_decode :: "string \<Rightarrow> string option"
  urlunparse_urlparse :: "string \<Rightarrow> string"
  now_isoformat :: "real \<Rightarrow> string"

subsection \<open>Value decoding\<close>

text \<open>\<^verbatim>\<open>json.loads(x)\<close> on a decoded value: only a string is parsed.\<close>

definition loads :: "library \<Rightarrow> json \<Rightarrow> error + json" where
  "loads lib x =
     (case x of
        JStr s \<Rightarrow> (case json_loads lib s of None \<Rightarrow> Inl JSONDecodeError | Some v \<Rightarrow> Inr v)
      | _ \<Rightarrow> Inl TypeError)"

text \<open>\<^verbatim>\<open>object_id_from_url(x)\<close> on a decoded value: only a string has \<^verbatim>\<open>strip\<close>.\<close>

definition object_id_from :: "json \<Rightarrow> error + json" where
  "object_id_from x =
     (case x of JStr u \<Rightarrow> Inr (JStr (object_id_from_url u)) | _ \<Rightarrow> Inl AttributeError)"

text \<open>
  \<^verbatim>\<open>
  def get_testinstance_value(test, test_instance):
      if test_instance["skipped"]:
          return None
      if test["type"] == "simple" and test["statistic"]:
          return json.loads(test_instance["json_value"])
      elif test["type"] in ["boolean", "composite", "constant", "simple", "wraparound"]:
          return test_instance["value"]
      elif test["type"] in ["string", "scomposite", "multchoice", "upload"]:
          return test_instance["string_value"]
      elif test["type"] == "date":
          return test_instance["date_value"]
      elif test["type"] == "datetime":
          return test_instance["datetime_value"]
      elif test["type"] == "ulookup":
          return object_id_from_url(test_instance["unit_lookup_value"])
      elif test["type"] == "rlookup":
          return object_id_from_url(test_instance["unit_lookup_value"])
      else:
          return test_instance["json_value"]
  \<close>
\<close>

definition get_testinstance_value :: "library \<Rightarrow> test \<Rightarrow> test_instance \<Rightarrow> error + json" where
  "get_testinstance_value lib test test_instance =
     (if ti_skipped test_instance then Inr JNull
      else if t_type test = ''simple'' \<and> t_statistic test then
        loads lib (ti_json_value test_instance)
      else if t_type test \<in> set [''boolean'', ''composite'', ''constant'', ''simple'', ''wraparound''] then
        Inr (ti_value test_instance)
      else if t_type test \<in> set [''string'', ''scomposite'', ''multchoice'', ''upload''] then
        Inr (ti_string_value test_instance)
      else if t_type test = ''date'' then Inr (ti_date_value test_instance)
      else if t_type test = ''datetime'' then Inr (ti_datetime_value test_instance)
      else if t_type test = ''ulookup'' then object_id_from (ti_unit_lookup_value test_instance)
      else if t_type test = ''rlookup'' then object_id_from (ti_unit_lookup_value test_instance)
      else Inr (ti_json_value test_instance))"

subsection \<open>The world: clock, module global, requests sent\<close>

datatype request = GET string | POST string json

text \<open>
  \<open>clock\<close> is what \<^verbatim>\<open>time.monotonic()\<close> returns, in seconds;
  \<open>next_allowed_api_call_time\<close> is the module global \<^verbatim>\<open>_next_allowed_api_call_time\<close>;
  \<open>sent\<close> lists the requests handed to the HTTP session, each with the clock at its
  dispatch, oldest first.
\<close>

record world =
  clock :: real
  next_allowed_api_call_time :: real
  sent :: "(real \<times> request) list"

definition API_SLEEP_TIME_S :: real where
  "API_SLEEP_TIME_S = 0.4"

text \<open>\<^verbatim>\<open>time.sleep(d)\<close>: the clock moves on by \<open>d\<close>.\<close>

definition sleep :: "real \<Rightarrow> world \<Rightarrow> world" where
  "sleep d w = w\<lparr>clock := clock w + d\<rparr>"

subsection \<open>The remote service\<close>

text \<open>
  What a list endpoint or an object endpoint answers: a single object (no \<^verbatim>\<open>results\<close>
  key) or a page with its \<^verbatim>\<open>results\<close> and its \<^verbatim>\<open>next\<close> link.
\<close>

datatype 'a payload = Single 'a | Page "'a list" "string option"

text \<open>What \<^verbatim>\<open>get_api_objects\<close> returns: \<^verbatim>\<open>dict | list[dict]\<close>.\<close>

datatype 'a fetched = One 'a | Many "'a list"

record post_response =
  status_code :: nat
  response_json :: "json option"

text \<open>
  The service is any function of the requests received so far and the present one. Each
  endpoint is typed by what it serves; \<open>Inl\<close> is an exception raised by the request or by
  \<^verbatim>\<open>response.json()\<close>. \<open>duration\<close> is the time a request takes.
\<close>

record service =
  root_endpoint :: "request list \<Rightarrow> string \<Rightarrow> error + json payload"
  sessions_endpoint :: "request list \<Rightarrow> string \<Rightarrow> error + qa_session payload"
  attachments_endpoint :: "request list \<Rightarrow> string \<Rightarrow> error + attachment payload"
  download_endpoint :: "request list \<Rightarrow> string \<Rightarrow> error + string"
  session_endpoint :: "request list \<Rightarrow> string \<Rightarrow> error + qa_session"
  post_endpoint :: "request list \<Rightarrow> string \<Rightarrow> json \<Rightarrow> error + post_response"
  duration :: "request list \<Rightarrow> request \<Rightarrow> real"

definition history :: "world \<Rightarrow> request list" where
  "history w = map snd (sent w)"

text \<open>\<^verbatim>\<open>session.get(url)\<close> and \<^verbatim>\<open>session.post(url, json=data)\<close>.\<close>

definition dispatch :: "service \<Rightarrow> request \<Rightarrow> world \<Rightarrow> world" where
  "dispatch sv rq w =
     w\<lparr>clock := clock w + duration sv (history w) rq, sent := sent w @ [(clock w, rq)]\<rparr>"

definition session_get ::
  "service \<Rightarrow> (request list \<Rightarrow> string \<Rightarrow> 'r) \<Rightarrow> string \<Rightarrow> world \<Rightarrow> 'r \<times> world" where
  "session_get sv endpoint url w = (endpoint (history w) url, dispatch sv (GET url) w)"

definition session_post ::
  "service \<Rightarrow> string \<Rightarrow> json \<Rightarrow> world \<Rightarrow> (error + post_response) \<times> world" where
  "session_post sv url data w =
     (post_endpoint sv (history w) url data, dispatch sv (POST url data) w)"

subsection \<open>The paginated, throttled fetch\<close>

text \<open>
  \<^verbatim>\<open>
          now = time.monotonic()
          if now < _next_allowed_api_call_time:
              time.sleep(_next_allowed_api_call_time - now)
          _next_allowed_api_call_time = now + API_SLEEP_TIME_S
  \<close>
\<close>

definition throttle :: "world \<Rightarrow> world" where
  "throttle w =
     (let now = clock w;
          w1 = (if now < next_allowed_api_call_time w
                then sleep (next_allowed_api_call_time w - now) w else w)
      in w1\<lparr>next_allowed_api_call_time := now + API_SLEEP_TIME_S\<rparr>)"

text \<open>
  \<^verbatim>\<open>
  def get_api_objects(session, url, all_pages=True):
      global _next_allowed_api_call_time
      next_page = url
      results = []
      while next_page:
          (throttle)
          response = session.get(next_page)
          payload = response.json()
          is_single_object = "results" not in payload
          if is_single_object:
              return payload
          results += payload['results']
          next_page = payload.get('next')
          if not (all_pages and next_page):
              break
          time.sleep(1)
      return results
  \<close>
  The loop follows \<^verbatim>\<open>next\<close> links for as long as the service hands them out, so it
  need not return: \<open>None\<close> is the run that never ends.
\<close>

partial_function (option) get_api_objects_loop ::
  "service \<Rightarrow> (request list \<Rightarrow> string \<Rightarrow> error + 'a payload) \<Rightarrow> bool \<Rightarrow> string \<Rightarrow> 'a list
     \<Rightarrow> world \<Rightarrow> ((error + 'a fetched) \<times> world) option" where
  "get_api_objects_loop sv endpoint all_pages next_page results w =
     (if next_page = [] then Some (Inr (Many results), w)
      else
        (case session_get sv endpoint next_page (throttle w) of
           (Inl e, w') \<Rightarrow> Some (Inl e, w')
         | (Inr (Single obj), w') \<Rightarrow> Some (Inr (One obj), w')
         | (Inr (Page rs nxt), w') \<Rightarrow>
             (if \<not> (all_pages \<and> nxt \<noteq> None \<and> nxt \<noteq> Some [])
              then Some (Inr (Many (results @ rs)), w')
              else get_api_objects_loop sv endpoint all_pages (the nxt) (results @ rs)
                     (sleep 1 w'))))"

definition get_api_objects ::
  "service \<Rightarrow> (request list \<Rightarrow> string \<Rightarrow> error + 'a payload) \<Rightarrow> string \<Rightarrow> bool
     \<Rightarrow> world \<Rightarrow> ((error + 'a fetched) \<times> world) option" where
  "get_api_objects sv endpoint url all_pages w =
     get_api_objects_loop sv endpoint all_pages url [] w"

subsection \<open>The client\<close>

record qarepeater =
  api_key :: string
  root :: string
  assignment_id :: int

text \<open>
  \<^verbatim>\<open>
      def get_api_objects(self, path, all_pages=True):
          full_url = urllib.parse.urlunparse(urllib.parse.urlparse(self.root + path.strip('/')))
          return get_api_objects(self.session, full_url, all_pages=all_pages)
  \<close>
\<close>

definition self_get_api_objects ::
  "library \<Rightarrow> service \<Rightarrow> qarepeater \<Rightarrow> (request list \<Rightarrow> string \<Rightarrow> error + 'a payload) \<Rightarrow> string
     \<Rightarrow> bool \<Rightarrow> world \<Rightarrow> ((error + 'a fetched) \<times> world) option" where
  "self_get_api_objects lib sv self endpoint path all_pages w =
     get_api_objects sv endpoint (urlunparse_urlparse lib (root self @ strip ''/'' path))
       all_pages w"

definition invalid_url_message :: string where
  "invalid_url_message =
     ''Invalid API URL. You must provide a URL like https://radmachine.radformation.com/customer/api/''"

definition unable_to_contact_message :: string where
  "unable_to_contact_message =
     ''Unable to contact RadMachine. Check your URL and API key are correct.''"

text \<open>\<^verbatim>\<open>isinstance(resp, dict) and 'qa' in resp\<close>.\<close>

fun looks_like_root :: "json fetched \<Rightarrow> bool" where
  "looks_like_root (One (JObj kvs)) = (''qa'' \<in> set (map fst kvs))"
| "looks_like_root _ = False"

text \<open>
  \<^verbatim>\<open>
      def __init__(self, api_key, api_url, assignment_id):
          self.session = requests.Session()
          self.session.headers.update({"RadAuthorization": f"Token {api_key}"})
          self.root = api_url.strip('/') + '/'
          self.assignment_id = assignment_id
          if not self.root.endswith('/api/'):
              raise ValueError("Invalid API URL. ...")
          try:
              resp = self.get_api_objects('')
              if not isinstance(resp, dict) or 'qa' not in resp:
                  raise Exception()
          except Exception:
              raise ValueError("Unable to contact RadMachine. ...")
  \<close>
\<close>

definition QARepeater ::
  "library \<Rightarrow> service \<Rightarrow> string \<Rightarrow> string \<Rightarrow> int \<Rightarrow> world
     \<Rightarrow> ((error + qarepeater) \<times> world) option" where
  "QARepeater lib sv key api_url aid w =
     (let self = \<lparr>api_key = key, root = strip ''/'' api_url @ ''/'', assignment_id = aid\<rparr> in
      if \<not> endswith (root self) ''/api/'' then Some (Inl (ValueError invalid_url_message), w)
      else
        (case self_get_api_objects lib sv self (root_endpoint sv) [] True w of
           None \<Rightarrow> None
         | Some (Inl e, w') \<Rightarrow> Some (Inl (ValueError unable_to_contact_message), w')
         | Some (Inr resp, w') \<Rightarrow>
             (if looks_like_root resp then Some (Inr self, w')
              else Some (Inl (ValueError unable_to_contact_message), w'))))"

subsection \<open>Dictionaries and formatting\<close>

text \<open>
  A Python dict keeps its keys in insertion order; storing under a key that is present
  replaces the value in place. \<open>AList.update\<close> is that store, \<open>map_of\<close> the lookup, and
  \<open>dict\<close> the dict comprehension over a list of pairs.
\<close>

definition dict :: "('k \<times> 'v) list \<Rightarrow> ('k \<times> 'v) list" where
  "dict kvs = foldl (\<lambda>d (k, v). AList.update k v d) [] kvs"

text \<open>\<^verbatim>\<open>str(n)\<close> for an integer, \<^verbatim>\<open>str(b)\<close> for a bool.\<close>

fun str_nat :: "nat \<Rightarrow> string" where
  "str_nat n =
     (if n < 10 then [''0123456789'' ! n]
      else str_nat (n div 10) @ [''0123456789'' ! (n mod 10)])"

declare str_nat.simps [simp del]

definition str_int :: "int \<Rightarrow> string" where
  "str_int i = (if i < 0 then CHR ''-'' # str_nat (nat (- i)) else str_nat (nat i))"

definition str_bool :: "bool \<Rightarrow> string" where
  "str_bool b = (if b then ''True'' else ''False'')"

text \<open>\<^verbatim>\<open>f"{response}"\<close>: the \<^verbatim>\<open>repr\<close> of a \<^verbatim>\<open>requests.Response\<close>.\<close>

definition str_response :: "post_response \<Rightarrow> string" where
  "str_response response = ''<Response ['' @ str_nat (status_code response) @ '']>''"

subsection \<open>Cached properties\<close>

text \<open>
  \<^verbatim>\<open>assignment\<close>, \<^verbatim>\<open>test_list\<close>, \<^verbatim>\<open>tests\<close> and \<^verbatim>\<open>unit_test_infos\<close> are
  \<^verbatim>\<open>cached_property\<close> attributes: each is fetched at most once in the life of the
  client. The record holds what those fetches returned: the assignment's \<^verbatim>\<open>url\<close>, the
  tests of the test list, and the UnitTestInfo objects of the whole unit. The fetches
  themselves are outside the model: a fresh client makes them inside the first call that
  reads a property (\<^verbatim>\<open>unit_test_infos\<close> inside the first \<^verbatim>\<open>results_from_session\<close>),
  and the functions below describe the client from the point where they have returned.
\<close>

record cached =
  assignment_url :: json
  tests :: "test list"
  all_unit_utis :: "unit_test_info list"

text \<open>
  \<^verbatim>\<open>
          test_urls = set([t["url"] for t in self.tests])
          test_list_utis = [uti for uti in all_unit_utis if uti['test'] in test_urls]
          return test_list_utis
  \<close>
\<close>

definition unit_test_infos :: "cached \<Rightarrow> unit_test_info list" where
  "unit_test_infos c =
     (let test_urls = set (map t_url (tests c))
      in filter (\<lambda>uti. uti_test uti \<in> test_urls) (all_unit_utis c))"

subsection \<open>Decoding a session\<close>

text \<open>
  \<^verbatim>\<open>
          for test_instance in qa_session["test_instances"]:
              test_url = unit_test_info_to_test[test_instance["unit_test_info"]]
              test = test_url_to_test[test_url]
              value = get_testinstance_value(test, test_instance)
              results[test['slug']] = value
  \<close>
\<close>

fun results_loop ::
  "library \<Rightarrow> (string \<times> test) list \<Rightarrow> (string \<times> string) list \<Rightarrow> test_instance list
     \<Rightarrow> (string \<times> json) list \<Rightarrow> error + (string \<times> json) list" where
  "results_loop lib test_url_to_test unit_test_info_to_test [] results = Inr results"
| "results_loop lib test_url_to_test unit_test_info_to_test (test_instance # rest) results =
     (case map_of unit_test_info_to_test (ti_unit_test_info test_instance) of
        None \<Rightarrow> Inl (KeyError (ti_unit_test_info test_instance))
      | Some test_url \<Rightarrow>
          (case map_of test_url_to_test test_url of
             None \<Rightarrow> Inl (KeyError test_url)
           | Some test \<Rightarrow>
               (case get_testinstance_value lib test test_instance of
                  Inl e \<Rightarrow> Inl e
                | Inr v \<Rightarrow>
                    results_loop lib test_url_to_test unit_test_info_to_test rest
                      (AList.update (t_slug test) v results))))"

text \<open>
  \<^verbatim>\<open>
      def results_from_session(self, qa_session):
          test_url_to_test = {t["url"]: t for t in self.tests}
          unit_test_info_to_test = {uti["url"]: uti["test"] for uti in self.unit_test_infos}
          results = {}
          (the loop above)
          return results
  \<close>
\<close>

definition results_from_session ::
  "library \<Rightarrow> cached \<Rightarrow> qa_session \<Rightarrow> error + (string \<times> json) list" where
  "results_from_session lib c qa_session =
     (let test_url_to_test = dict (map (\<lambda>t. (t_url t, t)) (tests c));
          unit_test_info_to_test = dict (map (\<lambda>uti. (uti_url uti, uti_test uti)) (unit_test_infos c))
      in results_loop lib test_url_to_test unit_test_info_to_test (s_test_instances qa_session) [])"

subsection \<open>Fetching sessions and attachments\<close>

text \<open>
  \<^verbatim>\<open>
      def previous_sessions(self, num_previous_instances):
          url = (f"qa/testlistinstances/" "?ordering=-work_completed"
                 f"&unit_test_collection={self.assignment_id}" f"&limit={num_previous_instances}")
          return self.get_api_objects(url, all_pages=False)
  \<close>
\<close>

definition previous_sessions ::
  "library \<Rightarrow> service \<Rightarrow> qarepeater \<Rightarrow> int \<Rightarrow> world
     \<Rightarrow> ((error + qa_session fetched) \<times> world) option" where
  "previous_sessions lib sv self num_previous_instances w =
     self_get_api_objects lib sv self (sessions_endpoint sv)
       (''qa/testlistinstances/?ordering=-work_completed&unit_test_collection=''
          @ str_int (assignment_id self) @ ''&limit='' @ str_int num_previous_instances)
       False w"

text \<open>
  \<^verbatim>\<open>
      def fetch_attachment(self, attachment_id):
          attachment = self.get_api_objects(f"/attachments/attachments/{attachment_id}/")
          download_link = attachment["download"]
          response = self.session.get(download_link, stream=True)
          f = io.BytesIO(response.raw.read())
          f.name = attachment['label']
          f.seek(0)
          return f
  \<close>
  The file object is the pair of its bytes and its name.
\<close>

definition fetch_attachment ::
  "library \<Rightarrow> service \<Rightarrow> qarepeater \<Rightarrow> json \<Rightarrow> world
     \<Rightarrow> ((error + string \<times> json) \<times> world) option" where
  "fetch_attachment lib sv self attachment_id w =
     (case self_get_api_objects lib sv self (attachments_endpoint sv)
             (''/attachments/attachments/'' @ py_str lib attachment_id @ ''/'') True w of
        None \<Rightarrow> None
      | Some (Inl e, w') \<Rightarrow> Some (Inl e, w')
      | Some (Inr (Many xs), w') \<Rightarrow> Some (Inl TypeError, w')
      | Some (Inr (One attachment), w') \<Rightarrow>
          (case session_get sv (download_endpoint sv) (a_download attachment) w' of
             (Inl e, w'') \<Rightarrow> Some (Inl e, w'')
           | (Inr content, w'') \<Rightarrow> Some (Inr (content, a_label attachment), w'')))"

subsection \<open>Submitting a session\<close>

text \<open>
  \<^verbatim>\<open>
      def perform_session(self, tests):
          data = {
              "unit_test_collection": self.assignment['url'],
              "work_started": datetime.datetime.now().isoformat(),
              "comment": "Consistency check",
              "tests": tests,
          }
          tli_url = f"{self.root}qa/testlistinstances/"
          response = self.session.post(tli_url, json=data)
          if response.status_code != requests.status_codes.codes.CREATED:
              message = f"{response}"
              try:
                  message = f"{message}: {response.json()}"
              except Exception:
                  pass
              raise ValueError(f"Failed to repeat session: {message}")
          return self.session.get(response.json()['url']).json()
  \<close>
\<close>

definition perform_data :: "library \<Rightarrow> cached \<Rightarrow> json \<Rightarrow> world \<Rightarrow> json" where
  "perform_data lib c tests_arg w =
     JObj [(''unit_test_collection'', assignment_url c),
           (''work_started'', JStr (now_isoformat lib (clock w))),
           (''comment'', JStr ''Consistency check''),
           (''tests'', tests_arg)]"

definition failure_message :: "library \<Rightarrow> post_response \<Rightarrow> string" where
  "failure_message lib response =
     (let message = str_response response;
          message = (case response_json response of
                       Some b \<Rightarrow> message @ '': '' @ py_str lib b
                     | None \<Rightarrow> message)
      in ''Failed to repeat session: '' @ message)"

definition perform_session ::
  "library \<Rightarrow> service \<Rightarrow> qarepeater \<Rightarrow> cached \<Rightarrow> json \<Rightarrow> world
     \<Rightarrow> (error + qa_session) \<times> world" where
  "perform_session lib sv self c tests_arg w =
     (let data = perform_data lib c tests_arg w;
          tli_url = root self @ ''qa/testlistinstances/''
      in case session_post sv tli_url data w of
           (Inl e, w') \<Rightarrow> (Inl e, w')
         | (Inr response, w') \<Rightarrow>
             (if status_code response \<noteq> 201 then
                (Inl (ValueError (failure_message lib response)), w')
              else
                (case response_json response of
                   None \<Rightarrow> (Inl JSONDecodeError, w')
                 | Some b \<Rightarrow>
                     (case getitem b ''url'' of
                        Inl e \<Rightarrow> (Inl e, w')
                      | Inr (JStr u) \<Rightarrow> session_get sv (session_endpoint sv) u w'
                      | Inr _ \<Rightarrow> (Inl RequestError, w')))))"

subsection \<open>Replaying sessions\<close>

text \<open>
  \<^verbatim>\<open>
              previous_calculated_results = {}
              for slug, value in previous_results.items():
                  test = slug_to_test[slug]
                  if test["type"] in CALCULATED_TEST_TYPES:
                      previous_calculated_results[slug] = value
  \<close>
\<close>

fun previous_calculated_loop ::
  "(string \<times> test) list \<Rightarrow> (string \<times> json) list \<Rightarrow> (string \<times> json) list
     \<Rightarrow> error + (string \<times> json) list" where
  "previous_calculated_loop slug_to_test [] previous_calculated_results =
     Inr previous_calculated_results"
| "previous_calculated_loop slug_to_test ((slug, v) # rest) previous_calculated_results =
     (case map_of slug_to_test slug of
        None \<Rightarrow> Inl (KeyError slug)
      | Some test \<Rightarrow>
          (if t_type test \<in> set CALCULATED_TEST_TYPES
           then previous_calculated_loop slug_to_test rest
                  (AList.update slug v previous_calculated_results)
           else previous_calculated_loop slug_to_test rest previous_calculated_results))"

text \<open>
  \<^verbatim>\<open>
              test_values_for_perform = {t["slug"]: {"skipped": True} for t in self.tests
                                         if t["type"] not in CALCULATED_TEST_TYPES}
  \<close>
\<close>

definition skipped_entry :: json where
  "skipped_entry = JObj [(''skipped'', JBool True)]"

definition initial_test_values :: "cached \<Rightarrow> (string \<times> json) list" where
  "initial_test_values c =
     dict (map (\<lambda>t. (t_slug t, skipped_entry))
             (filter (\<lambda>t. t_type t \<notin> set CALCULATED_TEST_TYPES) (tests c)))"

text \<open>
  \<^verbatim>\<open>
              for slug, value in previous_results.items():
                  test = slug_to_test[slug]
                  if test["type"] in CALCULATED_TEST_TYPES or value is None:
                      continue

                  if test["type"] == "upload":
                      attachment_id = value
                      if attachment_id:
                          attachment = self.fetch_attachment(attachment_id)
                          test_values_for_perform[test["slug"]] = {
                              "value": base64.b64decode(attachment.read()).decode(),
                              "filename": attachment.name,
                              "encoding": "base64",
                          }
                  else:
                      test_values_for_perform[test["slug"]] = {"value": value }
  \<close>
\<close>

definition upload_entry :: "string \<Rightarrow> json \<Rightarrow> json" where
  "upload_entry text filename =
     JObj [(''value'', JStr text), (''filename'', filename), (''encoding'', JStr ''base64'')]"

definition value_entry :: "json \<Rightarrow> json" where
  "value_entry v = JObj [(''value'', v)]"

fun test_values_loop ::
  "library \<Rightarrow> service \<Rightarrow> qarepeater \<Rightarrow> (string \<times> test) list \<Rightarrow> (string \<times> json) list
     \<Rightarrow> (string \<times> json) list \<Rightarrow> world \<Rightarrow> ((error + (string \<times> json) list) \<times> world) option" where
  "test_values_loop lib sv self slug_to_test [] test_values_for_perform w =
     Some (Inr test_values_for_perform, w)"
| "test_values_loop lib sv self slug_to_test ((slug, v) # rest) test_values_for_perform w =
     (case map_of slug_to_test slug of
        None \<Rightarrow> Some (Inl (KeyError slug), w)
      | Some test \<Rightarrow>
          (if t_type test \<in> set CALCULATED_TEST_TYPES \<or> v = JNull then
             test_values_loop lib sv self slug_to_test rest test_values_for_perform w
           else if t_type test = ''upload'' then
             (if truthy v then
                (case fetch_attachment lib sv self v w of
                   None \<Rightarrow> None
                 | Some (Inl e, w') \<Rightarrow> Some (Inl e, w')
                 | Some (Inr (content, filename), w') \<Rightarrow>
                     (case b64decode lib content of
                        None \<Rightarrow> Some (Inl Base64Error, w')
                      | Some bytes \<Rightarrow>
                          (case utf8_decode lib bytes of
                             None \<Rightarrow> Some (Inl UnicodeDecodeError, w')
                           | Some text \<Rightarrow>
                               test_values_loop lib sv self slug_to_test rest
                                 (AList.update (t_slug test) (upload_entry text filename)
                                    test_values_for_perform) w')))
              else test_values_loop lib sv self slug_to_test rest test_values_for_perform w)
           else
             test_values_loop lib sv self slug_to_test rest
               (AList.update (t_slug test) (value_entry v) test_values_for_perform) w))"

text \<open>
  \<^verbatim>\<open>
      def generate_results_table(self, previous_session, previous_results, new_session, new_results):
          table = []
          table.append(["Previous Session Link", previous_session['url']])
          table.append(["Previous Session Date", previous_session['work_completed']])
          table.append(["New Session Link", new_session['url']])
          table.append(["New Session Date", new_session['work_completed']])
          table.append(["Test", "Previous Result", "New Result", "Equal"])
          slug_to_test = {t["slug"]: t for t in self.tests}
          for slug, prev_val in previous_results.items():
              test = slug_to_test[slug]
              new_val = new_results.get(slug, "")
              table.append([test['name'], prev_val, new_val, str(prev_val == new_val)])
          return table
  \<close>
\<close>

fun table_loop ::
  "library \<Rightarrow> (string \<times> test) list \<Rightarrow> (string \<times> json) list \<Rightarrow> (string \<times> json) list
     \<Rightarrow> json list list \<Rightarrow> error + json list list" where
  "table_loop lib slug_to_test new_results [] table = Inr table"
| "table_loop lib slug_to_test new_results ((slug, prev_val) # rest) table =
     (case map_of slug_to_test slug of
        None \<Rightarrow> Inl (KeyError slug)
      | Some test \<Rightarrow>
          (let new_val = (case map_of new_results slug of None \<Rightarrow> JStr [] | Some v \<Rightarrow> v)
           in table_loop lib slug_to_test new_results rest
                (table @ [[JStr (t_name test), prev_val, new_val,
                           JStr (str_bool (py_eq lib prev_val new_val))]])))"

definition table_header :: "qa_session \<Rightarrow> qa_session \<Rightarrow> json list list" where
  "table_header previous_session new_session =
     [[JStr ''Previous Session Link'', s_url previous_session],
      [JStr ''Previous Session Date'', s_work_completed previous_session],
      [JStr ''New Session Link'', s_url new_session],
      [JStr ''New Session Date'', s_work_completed new_session],
      [JStr ''Test'', JStr ''Previous Result'', JStr ''New Result'', JStr ''Equal'']]"

definition generate_results_table ::
  "library \<Rightarrow> cached \<Rightarrow> qa_session \<Rightarrow> (string \<times> json) list \<Rightarrow> qa_session
     \<Rightarrow> (string \<times> json) list \<Rightarrow> error + json list list" where
  "generate_results_table lib c previous_session previous_results new_session new_results =
     (let table = table_header previous_session new_session;
          slug_to_test = dict (map (\<lambda>t. (t_slug t, t)) (tests c))
      in table_loop lib slug_to_test new_results previous_results table)"

text \<open>The body of the loop of \<^verbatim>\<open>repeat_qa\<close>: one historical session replayed.\<close>

definition repeat_qa_session ::
  "library \<Rightarrow> service \<Rightarrow> qarepeater \<Rightarrow> cached \<Rightarrow> (string \<times> test) list \<Rightarrow> qa_session \<Rightarrow> world
     \<Rightarrow> ((error + json list list) \<times> world) option" where
  "repeat_qa_session lib sv self c slug_to_test previous_session w =
     (case results_from_session lib c previous_session of
        Inl e \<Rightarrow> Some (Inl e, w)
      | Inr previous_results \<Rightarrow>
     (case previous_calculated_loop slug_to_test previous_results [] of
        Inl e \<Rightarrow> Some (Inl e, w)
      | Inr previous_calculated_results \<Rightarrow>
     (case test_values_loop lib sv self slug_to_test previous_results
             (initial_test_values c) w of
        None \<Rightarrow> None
      | Some (Inl e, w1) \<Rightarrow> Some (Inl e, w1)
      | Some (Inr test_values_for_perform, w1) \<Rightarrow>
     (case perform_session lib sv self c (JObj test_values_for_perform) w1 of
        (Inl e, w2) \<Rightarrow> Some (Inl e, w2)
      | (Inr new_session, w2) \<Rightarrow>
     (case results_from_session lib c new_session of
        Inl e \<Rightarrow> Some (Inl e, w2)
      | Inr new_results \<Rightarrow>
     (case generate_results_table lib c previous_session previous_results
             new_session new_results of
        Inl e \<Rightarrow> Some (Inl e, w2)
      | Inr table \<Rightarrow> Some (Inr table, w2)))))))"

fun repeat_qa_loop ::
  "library \<Rightarrow> service \<Rightarrow> qarepeater \<Rightarrow> cached \<Rightarrow> (string \<times> test) list \<Rightarrow> qa_session list
     \<Rightarrow> json list list list \<Rightarrow> world \<Rightarrow> ((error + json list list list) \<times> world) option" where
  "repeat_qa_loop lib sv self c slug_to_test [] results w = Some (Inr results, w)"
| "repeat_qa_loop lib sv self c slug_to_test (previous_session # rest) results w =
     (case repeat_qa_session lib sv self c slug_to_test previous_session w of
        None \<Rightarrow> None
      | Some (Inl e, w') \<Rightarrow> Some (Inl e, w')
      | Some (Inr table, w') \<Rightarrow>
          repeat_qa_loop lib sv self c slug_to_test rest (results @ [table]) w')"

text \<open>
  \<^verbatim>\<open>
      def repeat_qa(self, num_sessions=1):
          slug_to_test = {t["slug"]: t for t in self.tests}
          results = []
          for previous_session in self.previous_sessions(num_sessions):
              (the body above)
              results.append(self.generate_results_table(...))
          return results
  \<close>
  When the service answers with a single object instead of a page, the loop runs over the
  keys of a dict, and indexing the first key as a session raises \<^verbatim>\<open>TypeError\<close>.
\<close>

definition repeat_qa ::
  "library \<Rightarrow> service \<Rightarrow> qarepeater \<Rightarrow> cached \<Rightarrow> int \<Rightarrow> world
     \<Rightarrow> ((error + json list list list) \<times> world) option" where
  "repeat_qa lib sv self c num_sessions w =
     (let slug_to_test = dict (map (\<lambda>t. (t_slug t, t)) (tests c))
      in case previous_sessions lib sv self num_sessions w of
           None \<Rightarrow> None
         | Some (Inl e, w') \<Rightarrow> Some (Inl e, w')
         | Some (Inr (One obj), w') \<Rightarrow> Some (Inl TypeError, w')
         | Some (Inr (Many sessions), w') \<Rightarrow>
             repeat_qa_loop lib sv self c slug_to_test sessions [] w')"

subsection \<open>A concrete assignment\<close>

text \<open>
  The assignment of \<^verbatim>\<open>examples/03-performing-qa/ktp.py\<close>: two numerical tests and the
  calculation that depends on them, with stand-ins for the library functions.
\<close>

definition ex_lib :: library where
  "ex_lib = \<lparr>json_loads = (\<lambda>s. if s = ''[1]'' then Some (JList [JNum 1]) else None),
            py_str = (\<lambda>v. case v of JStr s \<Rightarrow> s | _ \<Rightarrow> ''?''),
            py_eq = (\<lambda>a b. a = b),
            b64decode = (\<lambda>s. if s = ''aGk='' then Some ''hi'' else None),
            utf8_decode = Some,
            urlunparse_urlparse = (\<lambda>u. u),
            now_isoformat = (\<lambda>t. ''2024-01-01T00:00:00'')\<rparr>"

definition temperature :: test where
  "temperature = \<lparr>t_url = ''https://h/c/api/qa/tests/1/'', t_slug = ''temperature'',
       t_name = ''Temperature'', t_type = ''simple'', t_statistic = False\<rparr>"

definition ex_instance :: test_instance where
  "ex_instance = \<lparr>ti_unit_test_info = ''https://h/c/api/qa/unittestinfos/1/'', ti_skipped = False,
       ti_value = JNum 22, ti_string_value = JNull, ti_date_value = JNull,
       ti_datetime_value = JNull, ti_json_value = JNull, ti_unit_lookup_value = JNull\<rparr>"

definition ex_tests :: "test list" where
  "ex_tests =
     [temperature,
      \<lparr>t_url = ''https://h/c/api/qa/tests/2/'', t_slug = ''pressure'', t_name = ''Pressure'',
       t_type = ''simple'', t_statistic = False\<rparr>,
      \<lparr>t_url = ''https://h/c/api/qa/tests/3/'', t_slug = ''ktp'', t_name = ''T&P correction'',
       t_type = ''composite'', t_statistic = False\<rparr>,
      \<lparr>t_url = ''https://h/c/api/qa/tests/4/'', t_slug = ''image'', t_name = ''Image'',
       t_type = ''upload'', t_statistic = False\<rparr>,
      \<lparr>t_url = ''https://h/c/api/qa/tests/5/'', t_slug = ''notes'', t_name = ''Notes'',
       t_type = ''string'', t_statistic = False\<rparr>,
      \<lparr>t_url = ''https://h/c/api/qa/tests/6/'', t_slug = ''humidity'', t_name = ''Humidity'',
       t_type = ''simple'', t_statistic = False\<rparr>]"

text \<open>
  The unit's UnitTestInfo objects: one for each test of the list, and one for a test that
  has been removed from the list.
\<close>

definition ex_utis :: "unit_test_info list" where
  "ex_utis =
     [\<lparr>uti_url = ''https://h/c/api/qa/unittestinfos/1/'', uti_test = ''https://h/c/api/qa/tests/1/''\<rparr>,
      \<lparr>uti_url = ''https://h/c/api/qa/unittestinfos/2/'', uti_test = ''https://h/c/api/qa/tests/2/''\<rparr>,
      \<lparr>uti_url = ''https://h/c/api/qa/unittestinfos/3/'', uti_test = ''https://h/c/api/qa/tests/3/''\<rparr>,
      \<lparr>uti_url = ''https://h/c/api/qa/unittestinfos/4/'', uti_test = ''https://h/c/api/qa/tests/4/''\<rparr>,
      \<lparr>uti_url = ''https://h/c/api/qa/unittestinfos/5/'', uti_test = ''https://h/c/api/qa/tests/5/''\<rparr>,
      \<lparr>uti_url = ''https://h/c/api/qa/unittestinfos/6/'', uti_test = ''https://h/c/api/qa/tests/6/''\<rparr>,
      \<lparr>uti_url = ''https://h/c/api/qa/unittestinfos/9/'', uti_test = ''https://h/c/api/qa/tests/9/''\<rparr>]"

definition ex_cached :: cached where
  "ex_cached = \<lparr>assignment_url = JStr ''https://h/c/api/qa/unittestcollections/123/'',
                tests = ex_tests, all_unit_utis = ex_utis\<rparr>"

definition ex_self :: qarepeater where
  "ex_self = \<lparr>api_key = ''key'', root = ''https://h/c/api/'', assignment_id = 123\<rparr>"

definition ex_other :: qarepeater where
  "ex_other = \<lparr>api_key = ''other key'', root = ''https://h/d/api/'', assignment_id = 7\<rparr>"

definition instance_of :: "string \<Rightarrow> test_instance" where
  "instance_of uti = ex_instance\<lparr>ti_unit_test_info := uti, ti_value := JNull\<rparr>"

text \<open>
  The historical session: temperature 22, pressure 750, ktp 56.8, an uploaded image whose
  attachment has id 7, and humidity skipped. The test \<open>notes\<close> has no instance: it was
  added to the list later.
\<close>

definition ex_previous_session :: qa_session where
  "ex_previous_session =
     \<lparr>s_url = JStr ''https://h/c/api/qa/testlistinstances/1/'',
      s_work_completed = JStr ''2023-04-12T10:01:00'',
      s_test_instances =
        [(instance_of ''https://h/c/api/qa/unittestinfos/1/'')\<lparr>ti_value := JNum 22\<rparr>,
         (instance_of ''https://h/c/api/qa/unittestinfos/2/'')\<lparr>ti_value := JNum 750\<rparr>,
         (instance_of ''https://h/c/api/qa/unittestinfos/3/'')\<lparr>ti_value := JNum 56.8\<rparr>,
         (instance_of ''https://h/c/api/qa/unittestinfos/4/'')\<lparr>ti_string_value := JStr ''7''\<rparr>,
         (instance_of ''https://h/c/api/qa/unittestinfos/6/'')\<lparr>ti_skipped := True\<rparr>]\<rparr>"

definition ex_new_session :: qa_session where
  "ex_new_session =
     \<lparr>s_url = JStr ''https://h/c/api/qa/testlistinstances/2/'',
      s_work_completed = JStr ''2024-01-01T00:00:01'',
      s_test_instances =
        [(instance_of ''https://h/c/api/qa/unittestinfos/1/'')\<lparr>ti_value := JNum 22\<rparr>,
         (instance_of ''https://h/c/api/qa/unittestinfos/2/'')\<lparr>ti_value := JNum 750\<rparr>,
         (instance_of ''https://h/c/api/qa/unittestinfos/3/'')\<lparr>ti_value := JNum 56.8\<rparr>,
         (instance_of ''https://h/c/api/qa/unittestinfos/4/'')\<lparr>ti_string_value := JStr ''8''\<rparr>,
         (instance_of ''https://h/c/api/qa/unittestinfos/5/'')\<lparr>ti_skipped := True\<rparr>,
         (instance_of ''https://h/c/api/qa/unittestinfos/6/'')\<lparr>ti_skipped := True\<rparr>]\<rparr>"

text \<open>A session that still holds an instance of the removed test.\<close>

definition ex_stale_session :: qa_session where
  "ex_stale_session =
     ex_previous_session\<lparr>s_test_instances :=
        [(instance_of ''https://h/c/api/qa/unittestinfos/1/'')\<lparr>ti_value := JNum 22\<rparr>,
         (instance_of ''https://h/c/api/qa/unittestinfos/9/'')\<lparr>ti_value := JNum 1\<rparr>]\<rparr>"

definition ex_created :: post_response where
  "ex_created = \<lparr>status_code = 201,
      response_json = Some (JObj [(''url'', JStr ''https://h/c/api/qa/testlistinstances/2/'')])\<rparr>"

definition ex_rejected :: post_response where
  "ex_rejected = \<lparr>status_code = 400, response_json = Some (JStr ''bad request'')\<rparr>"

text \<open>A service that answers every request in 50 ms.\<close>

definition ex_sv :: service where
  "ex_sv = \<lparr>root_endpoint = (\<lambda>h u. Inr (Single (JObj [(''qa'', JStr ''https://h/c/api/qa/'')]))),
           sessions_endpoint = (\<lambda>h u. Inr (Page [ex_previous_session] None)),
           attachments_endpoint =
             (\<lambda>h u. Inr (Single \<lparr>a_download = ''https://h/c/download/7'', a_label = JStr ''scan.txt''\<rparr>)),
           download_endpoint = (\<lambda>h u. Inr ''aGk=''),
           session_endpoint = (\<lambda>h u. Inr ex_new_session),
           post_endpoint = (\<lambda>h u d. Inr ex_created),
           duration = (\<lambda>h r. 0.05)\<rparr>"

definition ex_w0 :: world where
  "ex_w0 = \<lparr>clock = 0, next_allowed_api_call_time = 0, sent = []\<rparr>"

text \<open>The same service, except that it rejects every submission.\<close>

definition ex_rejecting_sv :: service where
  "ex_rejecting_sv = ex_sv\<lparr>post_endpoint := (\<lambda>h u d. Inr ex_rejected)\<rparr>"

definition ex_slug_to_test :: "(string \<times> test) list" where
  "ex_slug_to_test = dict (map (\<lambda>t. (t_slug t, t)) ex_tests)"

text \<open>What the historical session decodes to, and the payload its replay submits.\<close>

definition ex_previous_results :: "(string \<times> json) list" where
  "ex_previous_results =
     [(''temperature'', JNum 22), (''pressure'', JNum 750), (''ktp'', JNum 56.8),
      (''image'', JStr ''7''), (''humidity'', JNull)]"

definition ex_test_values :: "(string \<times> json) list" where
  "ex_test_values =
     [(''temperature'', value_entry (JNum 22)), (''pressure'', value_entry (JNum 750)),
      (''image'', upload_entry ''hi'' (JStr ''scan.txt'')), (''notes'', skipped_entry),
      (''humidity'', skipped_entry)]"

text \<open>The world after the attachment of the image has been fetched, starting from \<open>ex_w0\<close>.\<close>

definition ex_w1 :: world where
  "ex_w1 = \<lparr>clock = 0.1, next_allowed_api_call_time = 0.4,
            sent = [(0, GET ''https://h/c/api/attachments/attachments/7''),
                    (0.05, GET ''https://h/c/download/7'')]\<rparr>"


text \<open>The world after the replay of \<open>ex_previous_session\<close>, and the table it returns.\<close>

definition ex_w2 :: world where
  "ex_w2 = \<lparr>clock = 0.2, next_allowed_api_call_time = 0.4,
            sent = [(0, GET ''https://h/c/api/attachments/attachments/7''),
                    (0.05, GET ''https://h/c/download/7''),
                    (0.1, POST ''https://h/c/api/qa/testlistinstances/''
                            (perform_data ex_lib ex_cached (JObj ex_test_values) ex_w1)),
                    (0.15, GET ''https://h/c/api/qa/testlistinstances/2/'')]\<rparr>"

definition ex_table :: "json list list" where
  "ex_table =
     table_header ex_previous_session ex_new_session @
     [[JStr ''Temperature'', JNum 22, JNum 22, JStr ''True''],
      [JStr ''Pressure'', JNum 750, JNum 750, JStr ''True''],
      [JStr ''T&P correction'', JNum 56.8, JNum 56.8, JStr ''True''],
      [JStr ''Image'', JStr ''7'', JStr ''8'', JStr ''False''],
      [JStr ''Humidity'', JNull, JNull, JStr ''True'']]"

definition ex_new_results :: "(string \<times> json) list" where
  "ex_new_results =
     [(''temperature'', JNum 22), (''pressure'', JNum 750), (''ktp'', JNum 56.8),
      (''image'', JStr ''8''), (''notes'', JNull), (''humidity'', JNull)]"

section \<open>Properties\<close>

subsection \<open>Strings\<close>





lemma dropWhile_replicate_append:
  "dropWhile (\<lambda>c. c = x) (replicate n x @ ys) = dropWhile (\<lambda>c. c = x) ys"
  by (induction n) auto

lemma strip_slash:
  "strip ''/'' s = rev (dropWhile (\<lambda>c. c = CHR ''/'') (rev (dropWhile (\<lambda>c. c = CHR ''/'') s)))"
  by (simp add: strip_def)

lemma strip_trailing: "strip ''/'' (u @ replicate n CHR ''/'') = strip ''/'' u"
proof (cases "\<forall>c\<in>set u. c = CHR ''/''")
  case True
  have a: "dropWhile (\<lambda>c. c = CHR ''/'') (u @ replicate n CHR ''/'') = []"
    using True by auto
  have b: "dropWhile (\<lambda>c. c = CHR ''/'') u = []"
    using True by auto
  show ?thesis unfolding strip_slash a b by simp
next
  case False
  have a: "dropWhile (\<lambda>c. c = CHR ''/'') (u @ replicate n CHR ''/'')
             = dropWhile (\<lambda>c. c = CHR ''/'') u @ replicate n CHR ''/''"
    using False by (auto simp: dropWhile_append)
  show ?thesis
    unfolding strip_slash a rev_append rev_replicate dropWhile_replicate_append ..
qed

lemma strip_no_trailing: "strip cs u = [] \<or> last (strip cs u) \<notin> set cs"
  unfolding strip_def
  by (metis (mono_tags, lifting) hd_dropWhile last_rev rev_is_Nil_conv)


lemma endswith_root: "endswith (s @ ''/'') ''/api/'' \<longleftrightarrow> endswith s ''/api''"
  by (simp add: endswith_def)

subsection \<open>Value decoding\<close>



subsection \<open>The throttled fetch\<close>

lemma get_api_objects_loop_Single:
  "next_page \<noteq> [] \<Longrightarrow> endpoint (history (throttle w)) next_page = Inr (Single obj) \<Longrightarrow>
   get_api_objects_loop sv endpoint all_pages next_page results w
     = Some (Inr (One obj), dispatch sv (GET next_page) (throttle w))"
  by (subst get_api_objects_loop.simps) (simp add: session_get_def)

lemma get_api_objects_loop_Inl:
  "next_page \<noteq> [] \<Longrightarrow> endpoint (history (throttle w)) next_page = Inl e \<Longrightarrow>
   get_api_objects_loop sv endpoint all_pages next_page results w
     = Some (Inl e, dispatch sv (GET next_page) (throttle w))"
  by (subst get_api_objects_loop.simps) (simp add: session_get_def)

lemma get_api_objects_loop_first_page:
  "next_page \<noteq> [] \<Longrightarrow> endpoint (history (throttle w)) next_page = Inr (Page rs nxt) \<Longrightarrow>
   get_api_objects_loop sv endpoint False next_page results w
     = Some (Inr (Many (results @ rs)), dispatch sv (GET next_page) (throttle w))"
  by (subst get_api_objects_loop.simps) (simp add: session_get_def)

lemma history_throttle: "history (throttle w) = history w"
  by (simp add: history_def throttle_def sleep_def Let_def)

lemma sent_throttle: "sent (throttle w) = sent w"
  by (simp add: throttle_def sleep_def Let_def)

lemma clock_throttle: "clock (throttle w) = max (clock w) (next_allowed_api_call_time w)"
  by (simp add: throttle_def sleep_def Let_def)

lemma next_allowed_throttle:
  "next_allowed_api_call_time (throttle w) = clock w + API_SLEEP_TIME_S"
  by (simp add: throttle_def sleep_def Let_def)

subsection \<open>The constructor\<close>

lemma messages_differ: "invalid_url_message \<noteq> unable_to_contact_message"
  by (simp add: invalid_url_message_def unable_to_contact_message_def)

lemma QARepeater_invalid:
  "(\<exists>w'. QARepeater lib sv key api_url aid w = Some (Inl (ValueError invalid_url_message), w'))
     \<longleftrightarrow> \<not> endswith (strip ''/'' api_url) ''/api''"
  using messages_differ
  by (auto simp: QARepeater_def Let_def endswith_root split: option.splits sum.splits prod.splits if_splits)

lemma QARepeater_root:
  "QARepeater lib sv key api_url aid w = Some (Inr self, w') \<Longrightarrow>
   root self = strip ''/'' api_url @ ''/''"
  by (auto simp: QARepeater_def Let_def split: option.splits sum.splits prod.splits if_splits)

lemma one_trailing_slash:
  "endswith (strip ''/'' u @ ''/'') ''/'' \<and> \<not> endswith (strip ''/'' u @ ''/'') ''//''"
  using strip_no_trailing [of "''/''" u]
  by (cases "strip ''/'' u" rule: rev_cases) (auto simp: endswith_def suffix_def)

text \<open>
  Claim C10. The constructor raises the invalid-URL error exactly when the URL, with every
  leading and trailing \<^verbatim>\<open>/\<close> stripped, does not end with \<^verbatim>\<open>/api\<close>. Appending any number
  of slashes to the URL does not change that outcome, so a URL without the trailing slash
  and a URL with several are treated alike. A client that is constructed stores the stripped
  URL followed by one slash: its root ends with \<^verbatim>\<open>/\<close> and not with \<^verbatim>\<open>//\<close>.
\<close>

theorem C10_root_url_shape:
  "((\<exists>w'. QARepeater lib sv key api_url aid w = Some (Inl (ValueError invalid_url_message), w'))
      \<longleftrightarrow> \<not> endswith (strip ''/'' api_url) ''/api'') \<and>
   ((\<exists>w'. QARepeater lib sv key (api_url @ replicate n CHR ''/'') aid w
            = Some (Inl (ValueError invalid_url_message), w'))
      \<longleftrightarrow> (\<exists>w'. QARepeater lib sv key api_url aid w
                 = Some (Inl (ValueError invalid_url_message), w'))) \<and>
   (\<forall>self w'. QARepeater lib sv key api_url aid w = Some (Inr self, w') \<longrightarrow>
      root self = strip ''/'' api_url @ ''/'' \<and> endswith (root self) ''/''
      \<and> \<not> endswith (root self) ''//'')"
proof (intro conjI allI impI)
  show "(\<exists>w'. QARepeater lib sv key api_url aid w = Some (Inl (ValueError invalid_url_message), w'))
      \<longleftrightarrow> \<not> endswith (strip ''/'' api_url) ''/api''"
    by (rule QARepeater_invalid)
  show "(\<exists>w'. QARepeater lib sv key (api_url @ replicate n CHR ''/'') aid w
            = Some (Inl (ValueError invalid_url_message), w'))
      \<longleftrightarrow> (\<exists>w'. QARepeater lib sv key api_url aid w
                 = Some (Inl (ValueError invalid_url_message), w'))"
    unfolding QARepeater_invalid strip_trailing ..
next
  fix self w'
  assume a: "QARepeater lib sv key api_url aid w = Some (Inr self, w')"
  show "root self = strip ''/'' api_url @ ''/''"
    using a by (rule QARepeater_root)
  then show "endswith (root self) ''/''" "\<not> endswith (root self) ''//''"
    using one_trailing_slash [of api_url] by simp_all
qed

lemma ex_QARepeater:
  "QARepeater ex_lib ex_sv ''key'' ''https://h/c/api//'' 123 ex_w0
     = Some (Inr ex_self,
             \<lparr>clock = 0.05, next_allowed_api_call_time = 0.4,
              sent = [(0, GET ''https://h/c/api/'')]\<rparr>)"
  by (simp add: QARepeater_def self_get_api_objects_def get_api_objects_def
        get_api_objects_loop_Single ex_sv_def ex_lib_def ex_w0_def ex_self_def strip_def
        endswith_def suffix_to_prefix dispatch_def throttle_def history_def API_SLEEP_TIME_S_def)

theorem C10_root_url_shape_witness:
  "QARepeater ex_lib ex_sv ''key'' ''https://h/c/api//'' 123 ex_w0
     = Some (Inr ex_self,
             \<lparr>clock = 0.05, next_allowed_api_call_time = 0.4,
              sent = [(0, GET ''https://h/c/api/'')]\<rparr>)
   \<and> root ex_self = ''https://h/c/api/'' \<and> endswith (root ex_self) ''/''
   \<and> \<not> endswith (root ex_self) ''//''"
  using C10_root_url_shape [of ex_lib ex_sv "''key''" "''https://h/c/api//''" 123 ex_w0 0]
    ex_QARepeater
  by (simp add: strip_def ex_self_def endswith_def suffix_to_prefix)

subsection \<open>The rate limiter\<close>

lemma ex_fetch_1:
  "get_api_objects ex_sv (root_endpoint ex_sv) ''https://h/c/api/'' True ex_w0
     = Some (Inr (One (JObj [(''qa'', JStr ''https://h/c/api/qa/'')])),
             \<lparr>clock = 0.05, next_allowed_api_call_time = 0.4,
              sent = [(0, GET ''https://h/c/api/'')]\<rparr>)"
  by (simp add: get_api_objects_def get_api_objects_loop_Single ex_sv_def ex_w0_def
        dispatch_def throttle_def history_def API_SLEEP_TIME_S_def)

lemma ex_fetch_2:
  "get_api_objects ex_sv (root_endpoint ex_sv) ''https://h/c/api/''  True
     \<lparr>clock = 0.05, next_allowed_api_call_time = 0.4, sent = [(0, GET ''https://h/c/api/'')]\<rparr>
     = Some (Inr (One (JObj [(''qa'', JStr ''https://h/c/api/qa/'')])),
             \<lparr>clock = 0.45, next_allowed_api_call_time = 0.45,
              sent = [(0, GET ''https://h/c/api/''), (0.4, GET ''https://h/c/api/'')]\<rparr>)"
  by (simp add: get_api_objects_def get_api_objects_loop_Single ex_sv_def
        dispatch_def throttle_def sleep_def history_def API_SLEEP_TIME_S_def)

lemma ex_fetch_3:
  "get_api_objects ex_sv (root_endpoint ex_sv) ''https://h/c/api/'' True
     \<lparr>clock = 0.45, next_allowed_api_call_time = 0.45,
      sent = [(0, GET ''https://h/c/api/''), (0.4, GET ''https://h/c/api/'')]\<rparr>
     = Some (Inr (One (JObj [(''qa'', JStr ''https://h/c/api/qa/'')])),
             \<lparr>clock = 0.5, next_allowed_api_call_time = 0.85,
              sent = [(0, GET ''https://h/c/api/''), (0.4, GET ''https://h/c/api/''),
                      (0.45, GET ''https://h/c/api/'')]\<rparr>)"
  by (simp add: get_api_objects_def get_api_objects_loop_Single ex_sv_def
        dispatch_def throttle_def sleep_def history_def API_SLEEP_TIME_S_def)

text \<open>
  Claim C7. Three fetches in a row against a service that answers in 50 ms, starting at
  clock 0 with the deadline at 0: the requests are dispatched at 0 s, 0.4 s and 0.45 s.
  The second fetch sleeps until the deadline but sets the new deadline from the clock read
  before the sleep, so the third request leaves 0.05 s after the second, less than
  \<open>API_SLEEP_TIME_S\<close>.
\<close>

theorem C7_interval_violated:
  "get_api_objects ex_sv (root_endpoint ex_sv) ''https://h/c/api/'' True ex_w0
     = Some (Inr (One (JObj [(''qa'', JStr ''https://h/c/api/qa/'')])),
             \<lparr>clock = 0.05, next_allowed_api_call_time = 0.4,
              sent = [(0, GET ''https://h/c/api/'')]\<rparr>) \<and>
   get_api_objects ex_sv (root_endpoint ex_sv) ''https://h/c/api/''  True
     \<lparr>clock = 0.05, next_allowed_api_call_time = 0.4, sent = [(0, GET ''https://h/c/api/'')]\<rparr>
     = Some (Inr (One (JObj [(''qa'', JStr ''https://h/c/api/qa/'')])),
             \<lparr>clock = 0.45, next_allowed_api_call_time = 0.45,
              sent = [(0, GET ''https://h/c/api/''), (0.4, GET ''https://h/c/api/'')]\<rparr>) \<and>
   get_api_objects ex_sv (root_endpoint ex_sv) ''https://h/c/api/'' True
     \<lparr>clock = 0.45, next_allowed_api_call_time = 0.45,
      sent = [(0, GET ''https://h/c/api/''), (0.4, GET ''https://h/c/api/'')]\<rparr>
     = Some (Inr (One (JObj [(''qa'', JStr ''https://h/c/api/qa/'')])),
             \<lparr>clock = 0.5, next_allowed_api_call_time = 0.85,
              sent = [(0, GET ''https://h/c/api/''), (0.4, GET ''https://h/c/api/''),
                      (0.45, GET ''https://h/c/api/'')]\<rparr>) \<and>
   (0.45 :: real) - 0.4 < API_SLEEP_TIME_S"
  using ex_fetch_1 ex_fetch_2 ex_fetch_3 by (simp add: API_SLEEP_TIME_S_def)

lemma self_get_api_objects_Single:
  assumes "urlunparse_urlparse lib (root self @ strip ''/'' path) \<noteq> []"
    and "endpoint (history w) (urlunparse_urlparse lib (root self @ strip ''/'' path)) = Inr (Single obj)"
  shows "self_get_api_objects lib sv self endpoint path all_pages w
     = Some (Inr (One obj),
             dispatch sv (GET (urlunparse_urlparse lib (root self @ strip ''/'' path))) (throttle w))"
  using assms
  by (simp add: self_get_api_objects_def get_api_objects_def get_api_objects_loop_Single
        history_throttle)

text \<open>
  Claim C9, as the code has it. The deadline is a field of the world, not of the client:
  a fetch through one client that reads the clock at \<open>clock w\<close> leaves the deadline at
  \<open>clock w + API_SLEEP_TIME_S\<close>, and the next fetch through any other client is
  dispatched no earlier than that deadline.
\<close>

theorem C9_deadline_shared:
  assumes "urlunparse_urlparse lib (root a @ strip ''/'' path_a) = url_a" "url_a \<noteq> []"
    and "endpoint_a (history w) url_a = Inr (Single obj_a)"
    and "self_get_api_objects lib sv a endpoint_a path_a pages_a w = Some (r, w')"
    and "urlunparse_urlparse lib (root b @ strip ''/'' path_b) = url_b" "url_b \<noteq> []"
    and "endpoint_b (history w') url_b = Inr (Single obj_b)"
  shows "next_allowed_api_call_time w' = clock w + API_SLEEP_TIME_S \<and>
         (\<exists>w''. self_get_api_objects lib sv b endpoint_b path_b pages_b w'
                  = Some (Inr (One obj_b), w'') \<and>
                sent w'' = sent w' @ [(max (clock w') (clock w + API_SLEEP_TIME_S), GET url_b)])"
proof -
  have w': "w' = dispatch sv (GET url_a) (throttle w)"
    using assms(1-4) self_get_api_objects_Single [of lib a path_a endpoint_a w obj_a sv pages_a]
    by simp
  then have d: "next_allowed_api_call_time w' = clock w + API_SLEEP_TIME_S"
    by (simp add: dispatch_def next_allowed_throttle)
  have "self_get_api_objects lib sv b endpoint_b path_b pages_b w'
          = Some (Inr (One obj_b), dispatch sv (GET url_b) (throttle w'))"
    using assms(5-7) self_get_api_objects_Single [of lib b path_b endpoint_b w' obj_b sv pages_b]
    by simp
  moreover have "sent (dispatch sv (GET url_b) (throttle w'))
          = sent w' @ [(max (clock w') (clock w + API_SLEEP_TIME_S), GET url_b)]"
    by (simp add: dispatch_def sent_throttle clock_throttle d)
  ultimately show ?thesis using d by simp
qed

lemma ex_self_fetch:
  "self_get_api_objects ex_lib ex_sv ex_self (root_endpoint ex_sv) [] True ex_w0
     = Some (Inr (One (JObj [(''qa'', JStr ''https://h/c/api/qa/'')])),
             \<lparr>clock = 0.05, next_allowed_api_call_time = 0.4,
              sent = [(0, GET ''https://h/c/api/'')]\<rparr>)"
  using ex_fetch_1
  by (simp add: self_get_api_objects_def ex_lib_def ex_self_def strip_def)

lemma ex_other_fetch:
  "self_get_api_objects ex_lib ex_sv ex_other (root_endpoint ex_sv) [] True
     \<lparr>clock = 0.05, next_allowed_api_call_time = 0.4, sent = [(0, GET ''https://h/c/api/'')]\<rparr>
     = Some (Inr (One (JObj [(''qa'', JStr ''https://h/c/api/qa/'')])),
             \<lparr>clock = 0.45, next_allowed_api_call_time = 0.45,
              sent = [(0, GET ''https://h/c/api/''), (0.4, GET ''https://h/d/api/'')]\<rparr>)"
  by (simp add: self_get_api_objects_def ex_lib_def ex_other_def strip_def
        get_api_objects_def get_api_objects_loop_Single ex_sv_def
        dispatch_def throttle_def sleep_def history_def API_SLEEP_TIME_S_def)

text \<open>
  Claim C9 fails on the code. A fetch through the client \<open>ex_self\<close> at clock 0 moves the
  deadline from 0 to 0.4, and the first fetch through the client \<open>ex_other\<close>, which comes
  at 0.05, waits for that deadline: its request is dispatched at 0.4.
\<close>

theorem C9_isolation_counterexample:
  "self_get_api_objects ex_lib ex_sv ex_self (root_endpoint ex_sv) [] True ex_w0
     = Some (Inr (One (JObj [(''qa'', JStr ''https://h/c/api/qa/'')])),
             \<lparr>clock = 0.05, next_allowed_api_call_time = 0.4,
              sent = [(0, GET ''https://h/c/api/'')]\<rparr>) \<and>
   next_allowed_api_call_time
     \<lparr>clock = 0.05, next_allowed_api_call_time = 0.4, sent = [(0, GET ''https://h/c/api/'')]\<rparr>
     \<noteq> next_allowed_api_call_time ex_w0 \<and>
   self_get_api_objects ex_lib ex_sv ex_other (root_endpoint ex_sv) [] True
     \<lparr>clock = 0.05, next_allowed_api_call_time = 0.4, sent = [(0, GET ''https://h/c/api/'')]\<rparr>
     = Some (Inr (One (JObj [(''qa'', JStr ''https://h/c/api/qa/'')])),
             \<lparr>clock = 0.45, next_allowed_api_call_time = 0.45,
              sent = [(0, GET ''https://h/c/api/''), (0.4, GET ''https://h/d/api/'')]\<rparr>)"
  using ex_self_fetch ex_other_fetch by (simp add: ex_w0_def)

theorem C9_deadline_shared_witness:
  "next_allowed_api_call_time
     \<lparr>clock = 0.05, next_allowed_api_call_time = 0.4, sent = [(0, GET ''https://h/c/api/'')]\<rparr>
     = clock ex_w0 + API_SLEEP_TIME_S \<and>
   (\<exists>w''. self_get_api_objects ex_lib ex_sv ex_other (root_endpoint ex_sv) [] True
            \<lparr>clock = 0.05, next_allowed_api_call_time = 0.4,
             sent = [(0, GET ''https://h/c/api/'')]\<rparr>
            = Some (Inr (One (JObj [(''qa'', JStr ''https://h/c/api/qa/'')])), w'') \<and>
          sent w'' = [(0, GET ''https://h/c/api/''), (0.4, GET ''https://h/d/api/'')])"
proof -
  have 1: "urlunparse_urlparse ex_lib (root ex_self @ strip ''/'' []) = ''https://h/c/api/''"
    by (simp add: ex_lib_def ex_self_def strip_def)
  have 2: "''https://h/c/api/'' \<noteq> []" by simp
  have 3: "root_endpoint ex_sv (history ex_w0) ''https://h/c/api/''
             = Inr (Single (JObj [(''qa'', JStr ''https://h/c/api/qa/'')]))"
    by (simp add: ex_sv_def)
  have 5: "urlunparse_urlparse ex_lib (root ex_other @ strip ''/'' []) = ''https://h/d/api/''"
    by (simp add: ex_lib_def ex_other_def strip_def)
  have 6: "''https://h/d/api/'' \<noteq> []" by simp
  have 7: "root_endpoint ex_sv
             (history \<lparr>clock = 0.05, next_allowed_api_call_time = 0.4,
                       sent = [(0, GET ''https://h/c/api/'')]\<rparr>) ''https://h/d/api/''
             = Inr (Single (JObj [(''qa'', JStr ''https://h/c/api/qa/'')]))"
    by (simp add: ex_sv_def)
  show ?thesis
    using C9_deadline_shared [where endpoint_a = "root_endpoint ex_sv"
        and endpoint_b = "root_endpoint ex_sv" and sv = ex_sv and pages_b = True,
        OF 1 2 3 ex_self_fetch 5 6 7]
    by (simp add: ex_w0_def API_SLEEP_TIME_S_def)
qed

subsection \<open>Dictionaries\<close>

lemma map_of_foldl_update:
  "map_of (foldl (\<lambda>d (k, v). AList.update k v d) acc kvs) = map_of acc ++ map_of (rev kvs)"
proof (induction kvs arbitrary: acc)
  case Nil
  then show ?case by simp
next
  case (Cons kv kvs)
  obtain k v where kv: "kv = (k, v)" by (cases kv)
  show ?case
    by (simp add: kv Cons.IH update_conv' map_add_upd_left map_add_def fun_eq_iff
          split: option.splits)
qed

lemma map_of_dict: "map_of (dict kvs) = map_of (rev kvs)"
  by (simp add: dict_def map_of_foldl_update)


lemma distinct_foldl_update:
  "distinct (map fst acc) \<Longrightarrow>
   distinct (map fst (foldl (\<lambda>d (k, v). AList.update k v d) acc kvs))"
  by (induction kvs arbitrary: acc) (auto simp: distinct_update)

lemma distinct_dict: "distinct (map fst (dict kvs))"
  by (simp add: dict_def distinct_foldl_update)

lemma map_of_dict_SomeD:
  "map_of (dict (map (\<lambda>t. (f t, g t)) ts)) k = Some v \<Longrightarrow> \<exists>t\<in>set ts. f t = k \<and> g t = v"
  by (auto simp: map_of_dict dest!: map_of_SomeD)

lemma map_of_dict_None:
  "map_of (dict (map (\<lambda>t. (f t, g t)) ts)) k = None \<longleftrightarrow> k \<notin> f ` set ts"
  by (simp add: map_of_dict map_of_eq_None_iff image_image)

lemma map_of_dict_distinct:
  "distinct (map f ts) \<Longrightarrow> t \<in> set ts \<Longrightarrow>
   map_of (dict (map (\<lambda>t. (f t, g t)) ts)) (f t) = Some (g t)"
proof -
  assume d: "distinct (map f ts)" and t: "t \<in> set ts"
  have "distinct (map fst (rev (map (\<lambda>t. (f t, g t)) ts)))"
    using d by (simp add: rev_map [symmetric] comp_def)
  moreover have "(f t, g t) \<in> set (rev (map (\<lambda>t. (f t, g t)) ts))"
    using t by auto
  ultimately show ?thesis
    unfolding map_of_dict by (rule map_of_is_SomeI)
qed

subsection \<open>Decoding a session\<close>

lemma results_loop_missing:
  "ti \<in> set tis \<Longrightarrow> map_of u2t (ti_unit_test_info ti) = None \<Longrightarrow>
   \<exists>e. results_loop lib t2t u2t tis acc = Inl e"
  by (induction tis arbitrary: acc) (auto split: option.splits sum.splits)


lemma results_loop_keys:
  "results_loop lib t2t u2t tis acc = Inr res \<Longrightarrow> k \<in> fst ` set res \<Longrightarrow>
   k \<in> fst ` set acc \<or> (\<exists>u test. map_of t2t u = Some test \<and> t_slug test = k)"
proof (induction tis arbitrary: acc)
  case Nil
  then show ?case by simp
next
  case (Cons ti tis)
  from Cons.prems(1) obtain u test v where
    u: "map_of u2t (ti_unit_test_info ti) = Some u" and
    t: "map_of t2t u = Some test" and
    r: "results_loop lib t2t u2t tis (AList.update (t_slug test) v acc) = Inr res"
    by (auto split: option.splits sum.splits)
  from Cons.IH [OF r Cons.prems(2)] show ?case
    using t by (auto simp: dom_update)
qed


lemma results_from_session_keys:
  assumes "results_from_session lib c s = Inr res" "k \<in> fst ` set res"
  shows "\<exists>test\<in>set (tests c). t_slug test = k"
proof -
  from assms have "\<exists>u test. map_of (dict (map (\<lambda>t. (t_url t, t)) (tests c))) u = Some test
      \<and> t_slug test = k"
    unfolding results_from_session_def Let_def
    by (auto dest: results_loop_keys)
  then show ?thesis by (auto dest: map_of_dict_SomeD)
qed

lemma repeat_qa_loop_results:
  "repeat_qa_loop lib sv self c s2t sessions results w = Some (Inr tables, w') \<Longrightarrow>
   set results \<subseteq> set tables"
proof (induction sessions arbitrary: results w)
  case Nil
  then show ?case by simp
next
  case (Cons a sessions)
  from Cons.prems obtain table w1 where
    "repeat_qa_loop lib sv self c s2t sessions (results @ [table]) w1 = Some (Inr tables, w')"
    by (auto split: option.splits sum.splits)
  from Cons.IH [OF this] show ?case by simp
qed

lemma repeat_qa_loop_Inr_session:
  "repeat_qa_loop lib sv self c s2t sessions results w = Some (Inr tables, w') \<Longrightarrow>
   s \<in> set sessions \<Longrightarrow>
   \<exists>ws table ws'. repeat_qa_session lib sv self c s2t s ws = Some (Inr table, ws')
      \<and> table \<in> set tables"
proof (induction sessions arbitrary: results w)
  case Nil
  then show ?case by simp
next
  case (Cons a sessions)
  from Cons.prems(1) obtain table w1 where
    a: "repeat_qa_session lib sv self c s2t a w = Some (Inr table, w1)" and
    r: "repeat_qa_loop lib sv self c s2t sessions (results @ [table]) w1 = Some (Inr tables, w')"
    by (auto split: option.splits sum.splits)
  show ?case
  proof (cases "s = a")
    case True
    then show ?thesis using a repeat_qa_loop_results [OF r] by auto
  next
    case False
    then show ?thesis using Cons.IH [OF r] Cons.prems(2) by auto
  qed
qed

lemma ex_cached_tests: "tests ex_cached = ex_tests"
  by (simp add: ex_cached_def)

lemma ex_unit_test_infos: "unit_test_infos ex_cached = butlast ex_utis"
  by (simp add: unit_test_infos_def ex_cached_def ex_utis_def ex_tests_def temperature_def)

lemma ex_stale_decoded:
  "results_from_session ex_lib ex_cached ex_stale_session
     = Inl (KeyError ''https://h/c/api/qa/unittestinfos/9/'')"
  by (simp add: results_from_session_def ex_unit_test_infos ex_utis_def dict_def
        ex_cached_tests ex_tests_def temperature_def ex_stale_session_def ex_previous_session_def
        instance_of_def ex_instance_def get_testinstance_value_def)

text \<open>
  Claim C6 fails on the code. The session \<open>ex_stale_session\<close> holds an instance of a test
  that is no longer in the test list; decoding it raises \<^verbatim>\<open>KeyError\<close> on the instance's
  unit test info.
\<close>

theorem C6_silent_drop_counterexample:
  "results_from_session ex_lib ex_cached ex_stale_session
     = Inl (KeyError ''https://h/c/api/qa/unittestinfos/9/'')"
  by (rule ex_stale_decoded)

lemma results_loop_first_missing:
  assumes "\<forall>x\<in>set pre. \<exists>u test v. map_of u2t (ti_unit_test_info x) = Some u
             \<and> map_of t2t u = Some test \<and> get_testinstance_value lib test x = Inr v"
    and "map_of u2t (ti_unit_test_info ti) = None"
  shows "results_loop lib t2t u2t (pre @ ti # post) acc = Inl (KeyError (ti_unit_test_info ti))"
  using assms(1)
proof (induction pre arbitrary: acc)
  case Nil
  show ?case by (simp add: assms(2))
next
  case (Cons x pre)
  from Cons.prems obtain u test v where
    "map_of u2t (ti_unit_test_info x) = Some u" "map_of t2t u = Some test"
    "get_testinstance_value lib test x = Inr v"
    by auto
  moreover from Cons.prems have
    "results_loop lib t2t u2t (pre @ ti # post) (AList.update (t_slug test) v acc)
       = Inl (KeyError (ti_unit_test_info ti))"
    by (intro Cons.IH) simp
  ultimately show ?case by simp
qed

text \<open>
  Claim C6, as the code has it. Take a client whose cached properties are resolved and a
  session that holds an instance whose unit test info belongs to no test of the current
  list (every UnitTestInfo of the unit with that address points to a test outside the
  list). Decoding the session does not drop the instance: it raises an error, and when every
  earlier instance of the session resolves to a test and decodes, the error is
  \<^verbatim>\<open>KeyError\<close> on the address of the instance's unit test info. No mapping is returned,
  the replay of the session ends with that error, and the error leaves the loop of
  \<^verbatim>\<open>repeat_qa\<close>, so a batch that contains such a session never returns its tables.
  Nothing is said here about the requests sent on the way.
\<close>

theorem C6_removed_test_raises:
  assumes "s_test_instances s = pre @ ti # post"
    and "\<forall>uti\<in>set (all_unit_utis c).
           uti_url uti = ti_unit_test_info ti \<longrightarrow> uti_test uti \<notin> t_url ` set (tests c)"
  shows "(\<exists>e. results_from_session lib c s = Inl e
            \<and> (\<exists>w'. repeat_qa_session lib sv self c slug_to_test s w = Some (Inl e, w'))
            \<and> (\<exists>w'. repeat_qa_loop lib sv self c slug_to_test (s # rest) results w
                        = Some (Inl e, w'))
            \<and> (\<forall>sessions tables v v'. s \<in> set sessions \<longrightarrow>
                  repeat_qa_loop lib sv self c slug_to_test sessions results v
                    \<noteq> Some (Inr tables, v')))
       \<and> ((\<forall>x\<in>set pre. \<exists>u test v.
               map_of (dict (map (\<lambda>uti. (uti_url uti, uti_test uti)) (unit_test_infos c)))
                 (ti_unit_test_info x) = Some u
               \<and> map_of (dict (map (\<lambda>t. (t_url t, t)) (tests c))) u = Some test
               \<and> get_testinstance_value lib test x = Inr v) \<longrightarrow>
            results_from_session lib c s = Inl (KeyError (ti_unit_test_info ti))
            \<and> (\<exists>w'. repeat_qa_session lib sv self c slug_to_test s w
                        = Some (Inl (KeyError (ti_unit_test_info ti)), w'))
            \<and> (\<exists>w'. repeat_qa_loop lib sv self c slug_to_test (s # rest) results w
                        = Some (Inl (KeyError (ti_unit_test_info ti)), w')))"
proof (intro conjI impI)
  have mem: "ti \<in> set (s_test_instances s)"
    by (simp add: assms(1))
  have "ti_unit_test_info ti \<notin> uti_url ` set (unit_test_infos c)"
    using assms(2) by (auto simp: unit_test_infos_def)
  then have none: "map_of (dict (map (\<lambda>uti. (uti_url uti, uti_test uti)) (unit_test_infos c)))
               (ti_unit_test_info ti) = None"
    by (simp add: map_of_dict_None)
  have session: "repeat_qa_session lib sv self c slug_to_test s v = Some (Inl e, v)"
    if "results_from_session lib c s = Inl e" for e v
    using that by (simp add: repeat_qa_session_def)
  from none obtain e where e: "results_from_session lib c s = Inl e"
    unfolding results_from_session_def Let_def
    using results_loop_missing [OF mem] by blast
  have "repeat_qa_loop lib sv self c slug_to_test sessions results v \<noteq> Some (Inr tables, v')"
    if "s \<in> set sessions" for sessions tables v v'
  proof
    assume "repeat_qa_loop lib sv self c slug_to_test sessions results v = Some (Inr tables, v')"
    from repeat_qa_loop_Inr_session [OF this that] show False by (simp add: session [OF e])
  qed
  with e session [OF e] show "\<exists>e. results_from_session lib c s = Inl e
            \<and> (\<exists>w'. repeat_qa_session lib sv self c slug_to_test s w = Some (Inl e, w'))
            \<and> (\<exists>w'. repeat_qa_loop lib sv self c slug_to_test (s # rest) results w
                        = Some (Inl e, w'))
            \<and> (\<forall>sessions tables v v'. s \<in> set sessions \<longrightarrow>
                  repeat_qa_loop lib sv self c slug_to_test sessions results v
                    \<noteq> Some (Inr tables, v'))"
    by simp
  assume "\<forall>x\<in>set pre. \<exists>u test v.
               map_of (dict (map (\<lambda>uti. (uti_url uti, uti_test uti)) (unit_test_infos c)))
                 (ti_unit_test_info x) = Some u
               \<and> map_of (dict (map (\<lambda>t. (t_url t, t)) (tests c))) u = Some test
               \<and> get_testinstance_value lib test x = Inr v"
  then show k: "results_from_session lib c s = Inl (KeyError (ti_unit_test_info ti))"
    unfolding results_from_session_def Let_def assms(1)
    using none by (rule results_loop_first_missing)
  from session [OF k]
  show "\<exists>w'. repeat_qa_session lib sv self c slug_to_test s w
                        = Some (Inl (KeyError (ti_unit_test_info ti)), w')"
    by blast
  from session [OF k]
  show "\<exists>w'. repeat_qa_loop lib sv self c slug_to_test (s # rest) results w
                        = Some (Inl (KeyError (ti_unit_test_info ti)), w')"
    by simp
qed

theorem C6_removed_test_raises_witness:
  "s_test_instances ex_stale_session
     = [(instance_of ''https://h/c/api/qa/unittestinfos/1/'')\<lparr>ti_value := JNum 22\<rparr>]
       @ (instance_of ''https://h/c/api/qa/unittestinfos/9/'')\<lparr>ti_value := JNum 1\<rparr> # []
   \<and> results_from_session ex_lib ex_cached ex_stale_session
       = Inl (KeyError ''https://h/c/api/qa/unittestinfos/9/'')
   \<and> (\<exists>w'. repeat_qa_loop ex_lib ex_sv ex_self ex_cached ex_slug_to_test
               [ex_stale_session, ex_previous_session] [] ex_w0
             = Some (Inl (KeyError ''https://h/c/api/qa/unittestinfos/9/''), w'))"
proof -
  let ?a = "(instance_of ''https://h/c/api/qa/unittestinfos/1/'')\<lparr>ti_value := JNum 22\<rparr>"
  let ?ti = "(instance_of ''https://h/c/api/qa/unittestinfos/9/'')\<lparr>ti_value := JNum 1\<rparr>"
  have 1: "s_test_instances ex_stale_session = [?a] @ ?ti # []"
    by (simp add: ex_stale_session_def)
  have 2: "\<forall>uti\<in>set (all_unit_utis ex_cached).
           uti_url uti = ti_unit_test_info ?ti \<longrightarrow> uti_test uti \<notin> t_url ` set (tests ex_cached)"
    by (simp add: ex_cached_def ex_utis_def ex_tests_def temperature_def instance_of_def)
  have 3: "\<forall>x\<in>set [?a]. \<exists>u test v.
               map_of (dict (map (\<lambda>uti. (uti_url uti, uti_test uti)) (unit_test_infos ex_cached)))
                 (ti_unit_test_info x) = Some u
               \<and> map_of (dict (map (\<lambda>t. (t_url t, t)) (tests ex_cached))) u = Some test
               \<and> get_testinstance_value ex_lib test x = Inr v"
    by (simp add: ex_unit_test_infos ex_utis_def dict_def ex_cached_tests ex_tests_def
          temperature_def instance_of_def ex_instance_def get_testinstance_value_def)
  have 4: "ti_unit_test_info ?ti = ''https://h/c/api/qa/unittestinfos/9/''"
    by (simp add: instance_of_def)
  from C6_removed_test_raises [OF 1 2, of ex_lib ex_sv ex_self ex_slug_to_test ex_w0
      "[ex_previous_session]" "[]"] 3 1
  show ?thesis by (simp add: 4)
qed

subsection \<open>Submitting a session\<close>

lemma perform_session_rejected:
  assumes "post_endpoint sv (history w) (root self @ ''qa/testlistinstances/'')
             (perform_data lib c tests_arg w) = Inr response"
    and "status_code response \<noteq> 201"
  shows "perform_session lib sv self c tests_arg w
           = (Inl (ValueError (failure_message lib response)),
              dispatch sv (POST (root self @ ''qa/testlistinstances/'')
                             (perform_data lib c tests_arg w)) w)"
  using assms by (simp add: perform_session_def session_post_def)

lemma test_values_loop_lookups:
  "test_values_loop lib sv self s2t items tv w = Some (Inr tv', w') \<Longrightarrow>
   \<exists>pc. previous_calculated_loop s2t items acc = Inr pc"
proof (induction items arbitrary: tv w acc)
  case Nil
  then show ?case by simp
next
  case (Cons item items)
  obtain slug v where item: "item = (slug, v)" by (cases item)
  from Cons.prems obtain test where t: "map_of s2t slug = Some test"
    by (auto simp: item split: option.splits)
  from Cons.prems obtain tv1 w1 where
    "test_values_loop lib sv self s2t items tv1 w1 = Some (Inr tv', w')"
    by (auto simp: item t split: option.splits sum.splits prod.splits if_splits)
  from Cons.IH [OF this] show ?case
    by (simp add: item t)
qed

lemma ex_slug_to_test_eval:
  "ex_slug_to_test = map (\<lambda>t. (t_slug t, t)) ex_tests"
  by (simp add: ex_slug_to_test_def dict_def ex_tests_def temperature_def)

lemma ex_previous_decoded:
  "results_from_session ex_lib ex_cached ex_previous_session = Inr ex_previous_results"
  by (simp add: results_from_session_def ex_unit_test_infos ex_utis_def dict_def
        ex_cached_tests ex_tests_def temperature_def ex_previous_session_def
        instance_of_def ex_instance_def get_testinstance_value_def ex_previous_results_def)

lemma ex_initial_test_values:
  "initial_test_values ex_cached =
     [(''temperature'', skipped_entry), (''pressure'', skipped_entry),
      (''image'', skipped_entry), (''notes'', skipped_entry), (''humidity'', skipped_entry)]"
  by (simp add: initial_test_values_def ex_cached_tests ex_tests_def temperature_def dict_def
        CALCULATED_TEST_TYPES_def)

lemma ex_fetch_attachment:
  "attachments_endpoint sv = attachments_endpoint ex_sv \<Longrightarrow>
   download_endpoint sv = download_endpoint ex_sv \<Longrightarrow> duration sv = duration ex_sv \<Longrightarrow>
   fetch_attachment ex_lib sv ex_self (JStr ''7'') ex_w0
     = Some (Inr (''aGk='', JStr ''scan.txt''), ex_w1)"
  by (simp add: fetch_attachment_def self_get_api_objects_def get_api_objects_def
        get_api_objects_loop_Single ex_lib_def ex_self_def strip_def ex_sv_def ex_w0_def ex_w1_def
        session_get_def dispatch_def throttle_def history_def API_SLEEP_TIME_S_def)

lemma ex_test_values_loop:
  "attachments_endpoint sv = attachments_endpoint ex_sv \<Longrightarrow>
   download_endpoint sv = download_endpoint ex_sv \<Longrightarrow> duration sv = duration ex_sv \<Longrightarrow>
   test_values_loop ex_lib sv ex_self ex_slug_to_test ex_previous_results
       (initial_test_values ex_cached) ex_w0
     = Some (Inr ex_test_values, ex_w1)"
  by (simp add: ex_slug_to_test_eval ex_previous_results_def ex_initial_test_values
        ex_tests_def temperature_def CALCULATED_TEST_TYPES_def ex_fetch_attachment
        ex_test_values_def)
     (simp add: ex_lib_def)

text \<open>
  Claim C8. Let a replay reach the submission: the historical session decodes, the payload
  is built, and the POST is answered with a status other than 201. Then
  \<^verbatim>\<open>perform_session\<close> raises \<^verbatim>\<open>ValueError\<close> whose message is
  \<^verbatim>\<open>Failed to repeat session: \<close> followed by the response and, when the body parses as
  JSON, by a colon and the body. The POST is the only request sent: the new session is not
  fetched, and nothing is sent again. The error leaves the loop of \<^verbatim>\<open>repeat_qa\<close>, and \<^verbatim>\<open>repeat_qa\<close> itself, at once,
  whatever sessions remain. On 201, with the address of the created session in the body,
  \<^verbatim>\<open>perform_session\<close> is the GET of that address.
\<close>

theorem C8_submission_failure:
  assumes "results_from_session lib c s = Inr previous_results"
    and "test_values_loop lib sv self slug_to_test previous_results (initial_test_values c) w
           = Some (Inr tv, w1)"
    and "post_endpoint sv (history w1) (root self @ ''qa/testlistinstances/'')
           (perform_data lib c (JObj tv) w1) = Inr response"
  shows "(status_code response \<noteq> 201 \<longrightarrow>
            perform_session lib sv self c (JObj tv) w1
              = (Inl (ValueError (failure_message lib response)),
                 dispatch sv (POST (root self @ ''qa/testlistinstances/'')
                                (perform_data lib c (JObj tv) w1)) w1)
          \<and> failure_message lib response
              = ''Failed to repeat session: '' @ str_response response
                  @ (case response_json response of Some b \<Rightarrow> '': '' @ py_str lib b | None \<Rightarrow> [])
          \<and> sent (snd (perform_session lib sv self c (JObj tv) w1))
              = sent w1 @ [(clock w1, POST (root self @ ''qa/testlistinstances/'')
                                        (perform_data lib c (JObj tv) w1))]
          \<and> repeat_qa_loop lib sv self c slug_to_test (s # rest) results w
              = Some (Inl (ValueError (failure_message lib response)),
                      dispatch sv (POST (root self @ ''qa/testlistinstances/'')
                                     (perform_data lib c (JObj tv) w1)) w1)
          \<and> (\<forall>n w0. slug_to_test = dict (map (\<lambda>t. (t_slug t, t)) (tests c))
                 \<and> previous_sessions lib sv self n w0 = Some (Inr (Many (s # rest)), w) \<longrightarrow>
               repeat_qa lib sv self c n w0
                 = Some (Inl (ValueError (failure_message lib response)),
                         dispatch sv (POST (root self @ ''qa/testlistinstances/'')
                                        (perform_data lib c (JObj tv) w1)) w1)))
       \<and> (\<forall>b u. status_code response = 201 \<and> response_json response = Some b
                 \<and> getitem b ''url'' = Inr (JStr u) \<longrightarrow>
            perform_session lib sv self c (JObj tv) w1
              = session_get sv (session_endpoint sv) u
                  (dispatch sv (POST (root self @ ''qa/testlistinstances/'')
                                  (perform_data lib c (JObj tv) w1)) w1))"
proof (intro conjI impI allI)
  assume r: "status_code response \<noteq> 201"
  show p: "perform_session lib sv self c (JObj tv) w1
              = (Inl (ValueError (failure_message lib response)),
                 dispatch sv (POST (root self @ ''qa/testlistinstances/'')
                                (perform_data lib c (JObj tv) w1)) w1)"
    using assms(3) r by (rule perform_session_rejected)
  show "failure_message lib response
              = ''Failed to repeat session: '' @ str_response response
                  @ (case response_json response of Some b \<Rightarrow> '': '' @ py_str lib b | None \<Rightarrow> [])"
    by (simp add: failure_message_def Let_def split: option.splits)
  show "sent (snd (perform_session lib sv self c (JObj tv) w1))
              = sent w1 @ [(clock w1, POST (root self @ ''qa/testlistinstances/'')
                                        (perform_data lib c (JObj tv) w1))]"
    by (simp add: p dispatch_def)
  obtain pc where "previous_calculated_loop slug_to_test previous_results [] = Inr pc"
    using test_values_loop_lookups [OF assms(2)] by blast
  then have l: "repeat_qa_loop lib sv self c slug_to_test (s # rest) res w
              = Some (Inl (ValueError (failure_message lib response)),
                      dispatch sv (POST (root self @ ''qa/testlistinstances/'')
                                     (perform_data lib c (JObj tv) w1)) w1)" for res
    by (simp add: repeat_qa_session_def assms(1,2) p)
  then show "repeat_qa_loop lib sv self c slug_to_test (s # rest) results w
              = Some (Inl (ValueError (failure_message lib response)),
                      dispatch sv (POST (root self @ ''qa/testlistinstances/'')
                                     (perform_data lib c (JObj tv) w1)) w1)" .
  fix n w0
  assume "slug_to_test = dict (map (\<lambda>t. (t_slug t, t)) (tests c))
                 \<and> previous_sessions lib sv self n w0 = Some (Inr (Many (s # rest)), w)"
  then show "repeat_qa lib sv self c n w0
                 = Some (Inl (ValueError (failure_message lib response)),
                         dispatch sv (POST (root self @ ''qa/testlistinstances/'')
                                        (perform_data lib c (JObj tv) w1)) w1)"
    using l [of "[]"] by (simp add: repeat_qa_def Let_def)
next
  fix b u
  assume "status_code response = 201 \<and> response_json response = Some b
                 \<and> getitem b ''url'' = Inr (JStr u)"
  then show "perform_session lib sv self c (JObj tv) w1
              = session_get sv (session_endpoint sv) u
                  (dispatch sv (POST (root self @ ''qa/testlistinstances/'')
                                  (perform_data lib c (JObj tv) w1)) w1)"
    using assms(3) by (simp add: perform_session_def session_post_def)
qed

lemma ex_rejecting_post:
  "post_endpoint ex_rejecting_sv h u d = Inr ex_rejected"
  by (simp add: ex_rejecting_sv_def)

theorem C8_submission_failure_witness:
  "status_code ex_rejected \<noteq> 201 \<and>
   repeat_qa_loop ex_lib ex_rejecting_sv ex_self ex_cached ex_slug_to_test
       [ex_previous_session, ex_previous_session] [] ex_w0
     = Some (Inl (ValueError ''Failed to repeat session: <Response [400]>: bad request''),
             dispatch ex_rejecting_sv
               (POST ''https://h/c/api/qa/testlistinstances/''
                  (perform_data ex_lib ex_cached (JObj ex_test_values) ex_w1)) ex_w1)"
proof -
  have 1: "test_values_loop ex_lib ex_rejecting_sv ex_self ex_slug_to_test ex_previous_results
             (initial_test_values ex_cached) ex_w0 = Some (Inr ex_test_values, ex_w1)"
    by (rule ex_test_values_loop) (simp_all add: ex_rejecting_sv_def)
  have 2: "status_code ex_rejected \<noteq> 201"
    by (simp add: ex_rejected_def)
  have 3: "failure_message ex_lib ex_rejected
             = ''Failed to repeat session: <Response [400]>: bad request''"
    by (simp add: failure_message_def str_response_def ex_rejected_def ex_lib_def
          str_nat.simps [of 400] str_nat.simps [of 40] str_nat.simps [of 4])
  have 4: "root ex_self @ ''qa/testlistinstances/'' = ''https://h/c/api/qa/testlistinstances/''"
    by (simp add: ex_self_def)
  from C8_submission_failure [OF ex_previous_decoded 1 ex_rejecting_post,
      of "[ex_previous_session]" "[]"] 2 3 4
  show ?thesis by simp
qed

subsection \<open>The requests of a replay\<close>

lemma sent_dispatch: "sent (dispatch sv rq w) = sent w @ [(clock w, rq)]"
  by (simp add: dispatch_def)

lemma sent_sleep: "sent (sleep d w) = sent w"
  by (simp add: sleep_def)

lemma get_api_objects_loop_sent:
  assumes "get_api_objects_loop sv endpoint all_pages next_page results w = Some y"
  shows "prefix (sent w) (sent (snd y))"
proof (rule get_api_objects_loop.raw_induct
    [where P = "\<lambda>sv endpoint all_pages next_page results w y. prefix (sent w) (sent (snd y))",
     OF _ assms])
  fix loop :: "service \<Rightarrow> (request list \<Rightarrow> string \<Rightarrow> error + 'a payload) \<Rightarrow> bool \<Rightarrow> string
      \<Rightarrow> 'a list \<Rightarrow> world \<Rightarrow> ((error + 'a fetched) \<times> world) option"
  fix sv endpoint all_pages next_page results w y
  assume IH: "\<And>sv endpoint all_pages next_page results w y.
        loop sv endpoint all_pages next_page results w = Some y \<Longrightarrow> prefix (sent w) (sent (snd y))"
  assume body: "(if next_page = [] then Some (Inr (Many results), w)
      else case session_get sv endpoint next_page (throttle w) of
           (Inl e, w') \<Rightarrow> Some (Inl e, w')
           | (Inr (Single obj), w') \<Rightarrow> Some (Inr (One obj), w')
           | (Inr (Page rs nxt), w') \<Rightarrow>
               if \<not> (all_pages \<and> nxt \<noteq> None \<and> nxt \<noteq> Some [])
               then Some (Inr (Many (results @ rs)), w')
               else loop sv endpoint all_pages (the nxt) (results @ rs) (sleep 1 w')) = Some y"
  let ?w1 = "dispatch sv (GET next_page) (throttle w)"
  have w1: "prefix (sent w) (sent ?w1)"
    by (simp add: sent_dispatch sent_throttle)
  show "prefix (sent w) (sent (snd y))"
  proof (cases "next_page = []")
    case True
    with body show ?thesis by auto
  next
    case False
    show ?thesis
    proof (cases "endpoint (history (throttle w)) next_page")
      case (Inl e)
      with body False w1 show ?thesis by (auto simp: session_get_def)
    next
      case (Inr p)
      show ?thesis
      proof (cases p)
        case (Single obj)
        with body False Inr w1 show ?thesis by (auto simp: session_get_def)
      next
        case (Page rs nxt)
        show ?thesis
        proof (cases "\<not> (all_pages \<and> nxt \<noteq> None \<and> nxt \<noteq> Some [])")
          case True
          with body False Inr Page w1 show ?thesis by (auto simp: session_get_def)
        next
          case f: False
          with body False Inr Page
          have "loop sv endpoint all_pages (the nxt) (results @ rs) (sleep 1 ?w1) = Some y"
            by (auto simp: session_get_def)
          from IH [OF this] have "prefix (sent ?w1) (sent (snd y))"
            by (simp add: sent_sleep)
          with w1 show ?thesis by (rule prefix_order.trans)
        qed
      qed
    qed
  qed
qed

lemma fetch_attachment_sent:
  "fetch_attachment lib sv self v w = Some (r, w') \<Longrightarrow> prefix (sent w) (sent w')"
  unfolding fetch_attachment_def self_get_api_objects_def get_api_objects_def
  by (auto split: option.splits sum.splits prod.splits fetched.splits
        simp: session_get_def sent_dispatch
        dest!: get_api_objects_loop_sent intro: prefix_order.trans)

lemma test_values_loop_sent:
  "test_values_loop lib sv self s2t items tv w = Some (r, w') \<Longrightarrow> prefix (sent w) (sent w')"
proof (induction items arbitrary: tv w)
  case Nil
  then show ?case by simp
next
  case (Cons item items)
  obtain slug v where item: "item = (slug, v)" by (cases item)
  from Cons.prems consider
      (stop) "w' = w"
    | (same) tv1 where "test_values_loop lib sv self s2t items tv1 w = Some (r, w')"
    | (fetched) rf w1 where "fetch_attachment lib sv self v w = Some (rf, w1)"
        "w' = w1 \<or> (\<exists>tv1. test_values_loop lib sv self s2t items tv1 w1 = Some (r, w'))"
    by (auto simp: item split: option.splits sum.splits prod.splits if_splits)
  then show ?case
  proof cases
    case stop
    then show ?thesis by simp
  next
    case same
    then show ?thesis by (rule Cons.IH)
  next
    case fetched
    from fetched(1) have "prefix (sent w) (sent w1)" by (rule fetch_attachment_sent)
    with fetched(2) show ?thesis
      by (auto dest: Cons.IH intro: prefix_order.trans)
  qed
qed

subsection \<open>The submission payload\<close>

lemma test_values_loop_step:
  assumes "test_values_loop lib sv self s2t ((slug, v) # items) tv w = Some (Inr tv', w')"
  obtains
    (skip) test where "map_of s2t slug = Some test"
      "t_type test \<in> set CALCULATED_TEST_TYPES \<or> v = JNull
         \<or> (t_type test = ''upload'' \<and> \<not> truthy v)"
      "test_values_loop lib sv self s2t items tv w = Some (Inr tv', w')"
  | (upload) test content filename w1 bytes decoded where "map_of s2t slug = Some test"
      "t_type test \<notin> set CALCULATED_TEST_TYPES" "v \<noteq> JNull" "t_type test = ''upload''" "truthy v"
      "fetch_attachment lib sv self v w = Some (Inr (content, filename), w1)"
      "b64decode lib content = Some bytes" "utf8_decode lib bytes = Some decoded"
      "test_values_loop lib sv self s2t items
         (AList.update (t_slug test) (upload_entry decoded filename) tv) w1 = Some (Inr tv', w')"
  | (val) test where "map_of s2t slug = Some test"
      "t_type test \<notin> set CALCULATED_TEST_TYPES" "v \<noteq> JNull" "t_type test \<noteq> ''upload''"
      "test_values_loop lib sv self s2t items
         (AList.update (t_slug test) (value_entry v) tv) w = Some (Inr tv', w')"
proof (cases "map_of s2t slug")
  case None
  with assms show ?thesis by simp
next
  case (Some test)
  show ?thesis
  proof (cases "t_type test \<in> set CALCULATED_TEST_TYPES \<or> v = JNull
         \<or> (t_type test = ''upload'' \<and> \<not> truthy v)")
    case True
    with assms Some show ?thesis by (intro skip [of test]) (auto split: if_splits)
  next
    case False
    show ?thesis
    proof (cases "t_type test = ''upload''")
      case True
      with assms Some False show ?thesis
        by (auto split: option.splits sum.splits prod.splits intro: upload [of test])
    next
      case f: False
      with assms Some False show ?thesis by (intro val [of test]) auto
    qed
  qed
qed


lemma test_values_loop_origin:
  assumes "test_values_loop lib sv self s2t items tv w = Some (Inr tv', w')"
    and "\<forall>k t. map_of s2t k = Some t \<longrightarrow> t_slug t = k"
    and "map_of tv' k = Some e"
  shows "map_of tv k = Some e \<or>
         (\<exists>v test. (k, v) \<in> set items \<and> map_of s2t k = Some test
            \<and> t_type test \<notin> set CALCULATED_TEST_TYPES \<and> v \<noteq> JNull)"
  using assms(1)
proof (induction items arbitrary: tv w)
  case Nil
  with assms(3) show ?case by simp
next
  case (Cons item items)
  obtain slug v where item: "item = (slug, v)" by (cases item)
  from Cons.prems(1) [unfolded item] show ?case
  proof (cases rule: test_values_loop_step)
    case (skip test)
    from Cons.IH [OF skip(3)] show ?thesis by auto
  next
    case (upload test content filename w1 bytes decoded)
    from upload(1) assms(2) have s: "t_slug test = slug" by blast
    from Cons.IH [OF upload(9)] show ?thesis
      using upload(1,2,3) s by (auto simp: item update_conv' split: if_splits)
  next
    case (val test)
    from val(1) assms(2) have s: "t_slug test = slug" by blast
    from Cons.IH [OF val(5)] show ?thesis
      using val(1,2,3) s by (auto simp: item update_conv' split: if_splits)
  qed
qed



lemma map_of_key: "k \<in> fst ` set al \<Longrightarrow> \<exists>e. map_of al k = Some e"
  by (cases "map_of al k") (simp_all add: map_of_eq_None_iff)

lemma slug_to_test_consistent:
  "\<forall>k t. map_of (dict (map (\<lambda>t. (t_slug t, t)) ts)) k = Some t \<longrightarrow> t_slug t = k"
  by (auto dest: map_of_dict_SomeD)

lemma initial_test_values_entry:
  "map_of (initial_test_values c) k = Some e \<Longrightarrow>
   e = skipped_entry \<and> (\<exists>t\<in>set (tests c). t_slug t = k \<and> t_type t \<notin> set CALCULATED_TEST_TYPES)"
  unfolding initial_test_values_def
  by (drule map_of_dict_SomeD) auto



lemma perform_session_posts:
  "\<exists>rest. sent (snd (perform_session lib sv self c tests_arg w))
     = sent w @ (clock w, POST (root self @ ''qa/testlistinstances/'')
                            (perform_data lib c tests_arg w)) # rest"
  by (auto simp: perform_session_def session_post_def session_get_def sent_dispatch Let_def
        split: sum.splits option.splits json.splits)


lemma ex_cached_slug_to_test:
  "dict (map (\<lambda>t. (t_slug t, t)) (tests ex_cached)) = ex_slug_to_test"
  by (simp add: ex_slug_to_test_def ex_cached_tests)


subsection \<open>Uploads\<close>







subsection \<open>Calculated tests\<close>

lemma repeat_qa_session_Inr:
  assumes "repeat_qa_session lib sv self c s2t s w = Some (Inr table, w')"
  obtains previous_results tv w1 new_session new_results where
    "results_from_session lib c s = Inr previous_results"
    "test_values_loop lib sv self s2t previous_results (initial_test_values c) w
       = Some (Inr tv, w1)"
    "perform_session lib sv self c (JObj tv) w1 = (Inr new_session, w')"
    "results_from_session lib c new_session = Inr new_results"
    "generate_results_table lib c s previous_results new_session new_results = Inr table"
  using assms unfolding repeat_qa_session_def
  by (auto split: sum.splits option.splits prod.splits)

lemma table_loop_rows:
  "table_loop lib s2t new_results items table = Inr table' \<Longrightarrow>
   set table \<subseteq> set table' \<and>
   (\<forall>(slug, v)\<in>set items. \<exists>test new_val eq. map_of s2t slug = Some test
       \<and> [JStr (t_name test), v, new_val, eq] \<in> set table')"
proof (induction items arbitrary: table)
  case Nil
  then show ?case by simp
next
  case (Cons item items)
  obtain slug v where item: "item = (slug, v)" by (cases item)
  from Cons.prems obtain test where t: "map_of s2t slug = Some test"
    by (auto simp: item split: option.splits)
  let ?new = "case map_of new_results slug of None \<Rightarrow> JStr [] | Some x \<Rightarrow> x"
  let ?row = "[JStr (t_name test), v, ?new, JStr (str_bool (py_eq lib v ?new))]"
  from Cons.prems have "table_loop lib s2t new_results items (table @ [?row]) = Inr table'"
    by (simp add: item t Let_def)
  from Cons.IH [OF this] show ?case
    using t by (auto simp: item)
qed

lemma distinct_slug_eq:
  "distinct (map t_slug ts) \<Longrightarrow> t \<in> set ts \<Longrightarrow> t' \<in> set ts \<Longrightarrow> t_slug t = t_slug t' \<Longrightarrow>
   t = t'"
  by (auto simp: distinct_map dest: inj_onD)

lemma repeat_qa_session_calculated:
  assumes "distinct (map t_slug (tests c))"
    and "repeat_qa_session lib sv self c (dict (map (\<lambda>t. (t_slug t, t)) (tests c))) s w
           = Some (Inr table, w')"
  shows "\<exists>previous_results tv w1 rest.
           results_from_session lib c s = Inr previous_results
         \<and> prefix (sent w) (sent w1)
         \<and> sent w' = sent w1 @ (clock w1, POST (root self @ ''qa/testlistinstances/'')
                                            (perform_data lib c (JObj tv) w1)) # rest
         \<and> getitem (perform_data lib c (JObj tv) w1) ''tests'' = Inr (JObj tv)
         \<and> (\<forall>t\<in>set (tests c). t_type t \<in> set CALCULATED_TEST_TYPES \<longrightarrow>
               t_slug t \<notin> fst ` set tv)
         \<and> (\<forall>t\<in>set (tests c). \<forall>v. t_type t \<in> set CALCULATED_TEST_TYPES
               \<and> (t_slug t, v) \<in> set previous_results \<longrightarrow>
               (\<exists>new_val eq. [JStr (t_name t), v, new_val, eq] \<in> set table))"
proof -
  let ?s2t = "dict (map (\<lambda>t. (t_slug t, t)) (tests c))"
  note cons = slug_to_test_consistent [of "tests c"]
  from assms(2) obtain previous_results tv w1 new_session new_results where
    r: "results_from_session lib c s = Inr previous_results"
      "test_values_loop lib sv self ?s2t previous_results (initial_test_values c) w
         = Some (Inr tv, w1)"
      "perform_session lib sv self c (JObj tv) w1 = (Inr new_session, w')"
      "results_from_session lib c new_session = Inr new_results"
      "generate_results_table lib c s previous_results new_session new_results = Inr table"
    by (rule repeat_qa_session_Inr)
  have p: "prefix (sent w) (sent w1)"
    using r(2) by (rule test_values_loop_sent)
  obtain rest where rest: "sent w' = sent w1 @ (clock w1, POST (root self @ ''qa/testlistinstances/'')
                                            (perform_data lib c (JObj tv) w1)) # rest"
    using perform_session_posts [of lib sv self c "JObj tv" w1] by (auto simp: r(3))
  have g: "getitem (perform_data lib c (JObj tv) w1) ''tests'' = Inr (JObj tv)"
    by (simp add: perform_data_def)
  have no_calc: "t_slug t \<notin> fst ` set tv"
    if t: "t \<in> set (tests c)" "t_type t \<in> set CALCULATED_TEST_TYPES" for t
  proof
    assume "t_slug t \<in> fst ` set tv"
    then obtain e where e: "map_of tv (t_slug t) = Some e"
      using map_of_key by metis
    from test_values_loop_origin [OF r(2) cons e]
    obtain t' where t': "t' \<in> set (tests c)" "t_slug t' = t_slug t"
      "t_type t' \<notin> set CALCULATED_TEST_TYPES"
      by (auto dest: initial_test_values_entry map_of_dict_SomeD)
    from distinct_slug_eq [OF assms(1) t(1) t'(1)] t'(2) have "t = t'" by simp
    with t(2) t'(3) show False by simp
  qed
  have row: "\<exists>new_val eq. [JStr (t_name t), v, new_val, eq] \<in> set table"
    if t: "t \<in> set (tests c)" "(t_slug t, v) \<in> set previous_results" for t v
  proof -
    from r(5) have "table_loop lib ?s2t new_results previous_results
        (table_header s new_session) = Inr table"
      by (simp add: generate_results_table_def Let_def)
    from table_loop_rows [OF this] t(2)
    obtain test new_val eq where
      x: "map_of ?s2t (t_slug t) = Some test" "[JStr (t_name test), v, new_val, eq] \<in> set table"
      by fastforce
    from map_of_dict_distinct [OF assms(1) t(1), of "\<lambda>t. t"] x(1) have "test = t" by simp
    with x(2) show ?thesis by blast
  qed
  show ?thesis
    using r(1) p rest g no_calc row by blast
qed

lemma ex_previous_calculated:
  "previous_calculated_loop ex_slug_to_test ex_previous_results [] = Inr [(''ktp'', JNum 56.8)]"
  by (simp add: ex_slug_to_test_eval ex_previous_results_def ex_tests_def temperature_def
        CALCULATED_TEST_TYPES_def)

lemma ex_perform_session:
  "perform_session ex_lib ex_sv ex_self ex_cached (JObj ex_test_values) ex_w1
     = (Inr ex_new_session, ex_w2)"
  by (simp add: perform_session_def session_post_def session_get_def dispatch_def history_def
        ex_sv_def ex_created_def ex_self_def ex_w1_def ex_w2_def)

lemma ex_new_decoded:
  "results_from_session ex_lib ex_cached ex_new_session
     = Inr ex_new_results"
  by (simp add: results_from_session_def ex_unit_test_infos ex_utis_def dict_def
        ex_cached_tests ex_tests_def temperature_def ex_new_session_def
        instance_of_def ex_instance_def get_testinstance_value_def ex_new_results_def)

lemma ex_generate_results_table:
  "generate_results_table ex_lib ex_cached ex_previous_session ex_previous_results ex_new_session
     ex_new_results = Inr ex_table"
  by (simp add: generate_results_table_def ex_cached_slug_to_test ex_slug_to_test_eval Let_def
        ex_tests_def temperature_def ex_previous_results_def ex_table_def ex_lib_def str_bool_def
        ex_new_results_def)

lemma ex_repeat_qa_session:
  "repeat_qa_session ex_lib ex_sv ex_self ex_cached ex_slug_to_test ex_previous_session ex_w0
     = Some (Inr ex_table, ex_w2)"
  by (simp add: repeat_qa_session_def ex_previous_decoded ex_previous_calculated
        ex_test_values_loop ex_perform_session ex_new_decoded ex_generate_results_table)

text \<open>
  Claim C1. Let the slugs of the current tests be distinct, and let the loop of
  \<^verbatim>\<open>repeat_qa\<close> over the fetched sessions return its tables. Then every session of the
  batch was replayed and its table is among those returned; the session decoded to some
  results, a payload was built from them and posted under the key \<^verbatim>\<open>tests\<close>, and no test
  of a calculated type (composite, scomposite, rlookup) has its slug among the keys of that
  payload; yet every calculated test with a decoded historical value has a row in the
  table, with the name of the test and that value.
\<close>

theorem C1_calculated_tests:
  assumes "distinct (map t_slug (tests c))"
    and "repeat_qa_loop lib sv self c (dict (map (\<lambda>t. (t_slug t, t)) (tests c))) sessions
           results w0 = Some (Inr tables, w'')"
    and "s \<in> set sessions"
  shows "\<exists>w table w' previous_results tv w1 rest.
           repeat_qa_session lib sv self c (dict (map (\<lambda>t. (t_slug t, t)) (tests c))) s w
             = Some (Inr table, w')
         \<and> table \<in> set tables
         \<and> results_from_session lib c s = Inr previous_results
         \<and> prefix (sent w) (sent w1)
         \<and> sent w' = sent w1 @ (clock w1, POST (root self @ ''qa/testlistinstances/'')
                                            (perform_data lib c (JObj tv) w1)) # rest
         \<and> getitem (perform_data lib c (JObj tv) w1) ''tests'' = Inr (JObj tv)
         \<and> (\<forall>t\<in>set (tests c). t_type t \<in> set CALCULATED_TEST_TYPES \<longrightarrow>
               t_slug t \<notin> fst ` set tv)
         \<and> (\<forall>t\<in>set (tests c). \<forall>v. t_type t \<in> set CALCULATED_TEST_TYPES
               \<and> (t_slug t, v) \<in> set previous_results \<longrightarrow>
               (\<exists>new_val eq. [JStr (t_name t), v, new_val, eq] \<in> set table))"
proof -
  from repeat_qa_loop_Inr_session [OF assms(2,3)] obtain w table w' where
    r: "repeat_qa_session lib sv self c (dict (map (\<lambda>t. (t_slug t, t)) (tests c))) s w
          = Some (Inr table, w')" "table \<in> set tables"
    by blast
  from repeat_qa_session_calculated [OF assms(1) r(1)] r show ?thesis
    by blast
qed

theorem C1_calculated_tests_witness:
  "distinct (map t_slug (tests ex_cached))
   \<and> repeat_qa_loop ex_lib ex_sv ex_self ex_cached ex_slug_to_test [ex_previous_session] []
       ex_w0 = Some (Inr [ex_table], ex_w2)
   \<and> ex_previous_session \<in> set [ex_previous_session]
   \<and> ''ktp'' \<notin> fst ` set ex_test_values
   \<and> [JStr ''T&P correction'', JNum 56.8, JNum 56.8, JStr ''True''] \<in> set ex_table"
proof -
  have 1: "distinct (map t_slug (tests ex_cached))"
    by (simp add: ex_cached_tests ex_tests_def temperature_def)
  have 2: "repeat_qa_loop ex_lib ex_sv ex_self ex_cached
             (dict (map (\<lambda>t. (t_slug t, t)) (tests ex_cached))) [ex_previous_session] [] ex_w0
             = Some (Inr [ex_table], ex_w2)"
    unfolding ex_cached_slug_to_test by (simp add: ex_repeat_qa_session)
  have 3: "ex_previous_session \<in> set [ex_previous_session]"
    by simp
  from C1_calculated_tests [OF 1 2 3] 1 2 show ?thesis
    by (simp add: ex_cached_slug_to_test ex_test_values_def ex_table_def)
qed

end
